theory Spec2Isabelle
  imports Main "HOL-Library.Sublist"
begin

section \<open>Python strings\<close>

text \<open>
  A Python \<open>str\<close> is modelled as a \<open>string\<close> whose characters are code points below 256.
  \<open>py_isspace\<close> is \<open>str.isspace\<close> on one such code point: the characters that
  \<open>str.strip()\<close> removes (TAB, LF, VT, FF, CR, FS, GS, RS, US, SPACE, NEL, NBSP).
\<close>

definition py_isspace :: "char \<Rightarrow> bool" where
  "py_isspace c =
     (let n = (of_char c :: nat)
      in (9 \<le> n \<and> n \<le> 13) \<or> (28 \<le> n \<and> n \<le> 32) \<or> n = 133 \<or> n = 160)"

definition str_lstrip :: "string \<Rightarrow> string" where
  "str_lstrip s = dropWhile py_isspace s"

definition str_rstrip :: "string \<Rightarrow> string" where
  "str_rstrip s = rev (dropWhile py_isspace (rev s))"

text \<open>\<open>s.strip()\<close>: leading and trailing whitespace removed.\<close>

definition str_strip :: "string \<Rightarrow> string" where
  "str_strip s = str_rstrip (str_lstrip s)"

text \<open>
  \<open>s.split(sep)\<close> for a one-character separator: every occurrence splits, empty pieces are
  kept, and the result is never empty (\<open>"".split(",") == [""]\<close>).
\<close>

fun str_split :: "char \<Rightarrow> string \<Rightarrow> string list" where
  "str_split sep [] = [[]]"
| "str_split sep (c # cs) =
     (if c = sep then [] # str_split sep cs
      else (case str_split sep cs of
              [] \<Rightarrow> [[c]]
            | p # ps \<Rightarrow> (c # p) # ps))"

text \<open>\<open>sep.join(parts)\<close>.\<close>

fun str_join :: "string \<Rightarrow> string list \<Rightarrow> string" where
  "str_join sep [] = []"
| "str_join sep [p] = p"
| "str_join sep (p # q # ps) = p @ sep @ str_join sep (q # ps)"

text \<open>A string that \<open>strip()\<close> leaves alone: it neither starts nor ends with whitespace.\<close>

definition trimmed :: "string \<Rightarrow> bool" where
  "trimmed s = (s = [] \<or> (\<not> py_isspace (hd s) \<and> \<not> py_isspace (last s)))"

section \<open>settings.py\<close>

text \<open>
  \<open>APISettings\<close> after validation. \<open>cors_origins\<close> is declared \<open>str\<close> and replaced by the
  list that the field validator \<open>parse_cors_origin\<close> returns.
\<close>

record APISettings =
  name :: string
  debug :: bool
  cors_origins :: "string list"
  cachecontrol :: string
  template_directory :: "string option"

text \<open>\<open>[origin.strip() for origin in v.split(",")]\<close>\<close>

definition parse_cors_origin :: "string \<Rightarrow> string list" where
  "parse_cors_origin v = map str_strip (str_split CHR '','' v)"

text \<open>
  Construction of the settings object. Each argument is the value found under the
  \<open>TIPG_STAC_\<close> prefix in the environment (or the environment file), \<open>None\<close> when the
  variable is unset and the field default applies. \<open>BaseSettings\<close> validates defaults, so
  the validator also runs on the default \<open>"*"\<close>.
\<close>

definition APISettings_init ::
  "string option \<Rightarrow> bool option \<Rightarrow> string option \<Rightarrow> string option \<Rightarrow> string option
     \<Rightarrow> APISettings" where
  "APISettings_init env_name env_debug env_cors_origins env_cachecontrol env_template_directory =
     \<lparr> name = (case env_name of None \<Rightarrow> ''TiPg STAC: Use PgSTAC as backend'' | Some v \<Rightarrow> v),
       debug = (case env_debug of None \<Rightarrow> False | Some v \<Rightarrow> v),
       cors_origins =
         parse_cors_origin (case env_cors_origins of None \<Rightarrow> ''*'' | Some v \<Rightarrow> v),
       cachecontrol =
         (case env_cachecontrol of None \<Rightarrow> ''public, max-age=3600'' | Some v \<Rightarrow> v),
       template_directory = env_template_directory \<rparr>"

section \<open>Python values, dictionaries, query parameters\<close>

text \<open>
  Floats (bounding boxes, simplification tolerance) and the filter syntax tree are only
  handed on to the boundary; nothing is computed with them.
\<close>

typedecl pyfloat

typedecl AstType

datatype pyval =
    PNone
  | PBool bool
  | PInt int
  | PFloat pyfloat
  | PStr string
  | PList "pyval list"
  | PTuple "pyval list"
  | PSet "string set"
  | PDict "(string \<times> pyval) list"

text \<open>
  A \<open>dict\<close> is an association list with distinct keys in insertion order.
  \<open>dict_set d k v\<close> is \<open>d[k] = v\<close>: an existing key keeps its place and takes the new
  value, a new key goes to the end.
\<close>

type_synonym 'v dict = "(string \<times> 'v) list"

fun dict_set :: "'v dict \<Rightarrow> string \<Rightarrow> 'v \<Rightarrow> 'v dict" where
  "dict_set [] k v = [(k, v)]"
| "dict_set ((k', v') # d) k v =
     (if k' = k then (k, v) # d else (k', v') # dict_set d k v)"

text \<open>
  \<open>{**d, **items}\<close>, \<open>dict(items)\<close> and a dict display \<open>{k1: v1, k2: v2, ...}\<close>: the items
  are stored one after the other.
\<close>

fun dict_update :: "'v dict \<Rightarrow> (string \<times> 'v) list \<Rightarrow> 'v dict" where
  "dict_update d [] = d"
| "dict_update d ((k, v) # kvs) = dict_update (dict_set d k v) kvs"

definition dict_of :: "(string \<times> 'v) list \<Rightarrow> 'v dict" where
  "dict_of kvs = dict_update [] kvs"

definition dict_contains :: "'v dict \<Rightarrow> string \<Rightarrow> bool" where
  "dict_contains d k = (k \<in> set (map fst d))"

definition dict_del :: "'v dict \<Rightarrow> string \<Rightarrow> 'v dict" where
  "dict_del d k = filter (\<lambda>kv. fst kv \<noteq> k) d"

text \<open>
  Starlette's \<open>QueryParams\<close> is an immutable multi-dict: \<open>_list\<close> holds every
  \<open>(key, value)\<close> pair of the query string in order, and the mapping interface
  (\<open>keys()\<close>, \<open>__getitem__\<close>, used by \<open>{**request.query_params}\<close> and
  \<open>dict(request.query_params)\<close>) reads \<open>_dict = {k: v for k, v in _list}\<close>, which holds
  each key once, at the place of its first occurrence, with its last value.
  A \<open>QueryParams\<close> is modelled by its \<open>_list\<close>.
\<close>

type_synonym QueryParams = "(string \<times> string) list"

definition qp_dict :: "QueryParams \<Rightarrow> string dict" where
  "qp_dict query_params = dict_of query_params"

section \<open>Errors, media types, links, features\<close>

text \<open>
  The exceptions a handler can end with. \<open>NoPrimaryKey\<close> is the error the specification
  calls MissingPrimaryKey. \<open>BoundaryError\<close> stands for an exception of a boundary capability
  (backend call, JSON parsing), which the handlers let through.
\<close>

datatype error =
    NoPrimaryKey string
  | NotFound string
  | InvalidDatetime string
  | KeyError string
  | ValueError string
  | BoundaryError string

definition and_then :: "error + 'a \<Rightarrow> ('a \<Rightarrow> error + 'b) \<Rightarrow> error + 'b" where
  "and_then m f = (case m of Inl e \<Rightarrow> Inl e | Inr x \<Rightarrow> f x)"

text \<open>The members of \<open>MediaType\<close> the handlers name; \<open>other_media\<close> is any other member.\<close>

datatype MediaType = geojson | geojsonseq | html | csv | json | ndjson | other_media

record Link =
  href :: string
  rel :: string
  link_type :: string
  link_title :: "string option"

text \<open>
  A feature as the data model describes it. \<open>feature_id\<close> and \<open>feature_geometry\<close> are what
  \<open>f.get("id")\<close> and \<open>f.get("geometry")\<close> return (\<open>PNone\<close> for a missing key as for an
  explicit null), \<open>feature_properties\<close> is \<open>f.get("properties", {})\<close>, and
  \<open>feature_rest\<close> holds the remaining keys.
\<close>

record Feature =
  feature_id :: pyval
  feature_collection :: pyval
  feature_properties :: "pyval dict"
  feature_geometry :: pyval
  feature_rest :: "pyval dict"

text \<open>The paged result envelope \<open>item_list\<close>.\<close>

record ItemList =
  il_items :: "Feature list"
  il_matched :: "int option"
  il_next :: "string option"
  il_prev :: "string option"

record PgSTACCollection =
  coll_id :: string
  coll_title :: "string option"
  coll_description :: "string option"
  id_column :: "string option"

text \<open>
  The keyword arguments of \<open>collection.features(...)\<close>; \<open>None\<close> is Python's \<open>None\<close> or an
  argument that is not passed.
\<close>

record features_kwargs =
  kw_ids_filter :: "string list option"
  kw_bbox_filter :: "pyfloat list option"
  kw_datetime_filter :: "string list option"
  kw_cql_filter :: "AstType option"
  kw_sortby :: "string option"
  kw_properties :: "string list option"
  kw_limit :: "int option"
  kw_token :: "string option"
  kw_bbox_only :: "bool option"
  kw_simplify :: "pyfloat option"
  kw_geom_as_wkt :: bool
  kw_query :: "string option"

text \<open>The \<open>data\<close> document of the GeoJSON and HTML responses of the list and search routes.\<close>

record FeatureCollection =
  fc_id :: "string option"
  fc_title :: "string option"
  fc_description :: string
  numberMatched :: "int option"
  numberReturned :: nat
  links :: "Link list"
  features :: "(Feature \<times> Link list) list"

datatype content =
    Rows "pyval dict list"
  | Row "pyval dict"
  | CollectionDoc FeatureCollection
  | FeatureSeq "(Feature \<times> Link list) list"
  | FeatureDoc Feature "Link list"

text \<open>
  The response objects: \<open>StreamingResponse\<close> with the streamed content, its media type and
  its \<open>Content-Disposition\<close> header; \<open>ORJSONResponse\<close>; the HTML response with its template
  name; \<open>GeoJSONResponse\<close>.
\<close>

datatype response =
    StreamingResponse content MediaType string
  | ORJSONResponse content
  | HTMLResponse content string
  | GeoJSONResponse content

text \<open>The flattened rows a response emits, if it emits rows.\<close>

fun response_rows :: "response \<Rightarrow> pyval dict list option" where
  "response_rows (StreamingResponse (Rows rows) m h) = Some rows"
| "response_rows (ORJSONResponse (Rows rows)) = Some rows"
| "response_rows (ORJSONResponse (Row row)) = Some [row]"
| "response_rows r = None"

text \<open>The collection-level links a response carries, if it carries any.\<close>

fun response_links :: "response \<Rightarrow> Link list option" where
  "response_links (GeoJSONResponse (CollectionDoc d)) = Some (links d)"
| "response_links (HTMLResponse (CollectionDoc d) t) = Some (links d)"
| "response_links r = None"

section \<open>The boundary\<close>

text \<open>
  What the handlers call outside this repository's source: the route framework's
  \<open>url_for\<close> (route name and path parameters), \<open>urllib.parse.urlencode\<close> (behind
  \<open>str(QueryParams)\<close>) and \<open>unquote_plus\<close>, \<open>json.loads\<close> and \<open>json.dumps\<close>,
  \<open>to_cql2\<close>, \<open>parse_rfc3339\<close> (an aware datetime is modelled by its instant, an integer),
  the per-collection feature search, the catalog-wide search with the validation of its
  request model, and \<open>FeaturesSettings().default_features_limit\<close>.
\<close>

type_synonym PgSTACSearch = "pyval dict"

record boundary =
  url_for :: "string \<Rightarrow> pyval dict \<Rightarrow> string"
  urlencode :: "(string \<times> string) list \<Rightarrow> string"
  unquote_plus :: "string \<Rightarrow> string"
  json_loads :: "string \<Rightarrow> error + pyval"
  json_dumps :: "pyval \<Rightarrow> string"
  to_cql2 :: "AstType \<Rightarrow> string"
  parse_rfc3339 :: "string \<Rightarrow> error + int"
  collection_features :: "PgSTACCollection \<Rightarrow> features_kwargs \<Rightarrow> error + ItemList"
  model_validate :: "pyval dict \<Rightarrow> error + PgSTACSearch"
  pgstac_search :: "PgSTACSearch \<Rightarrow> error + ItemList"
  default_features_limit :: int

section \<open>factory.py: shared pieces of the handlers\<close>

text \<open>Of a Starlette \<open>Request\<close> the handlers read the query parameters.\<close>

record Request =
  query_params :: QueryParams

text \<open>\<open>a or b\<close> for an optional string \<open>a\<close>: \<open>None\<close> and the empty string are falsy.\<close>

definition str_or :: "string option \<Rightarrow> string \<Rightarrow> string" where
  "str_or a b = (case a of None \<Rightarrow> b | Some s \<Rightarrow> if s = [] then b else s)"

text \<open>\<open>output_type or MediaType.geojson\<close>\<close>

definition resolve_output_type :: "MediaType option \<Rightarrow> MediaType" where
  "resolve_output_type output_type = (case output_type of None \<Rightarrow> geojson | Some m \<Rightarrow> m)"

text \<open>\<open>output_type not in [MediaType.geojson, MediaType.geojsonseq, MediaType.html]\<close>\<close>

definition geom_as_wkt_of :: "MediaType \<Rightarrow> bool" where
  "geom_as_wkt_of output_type = (output_type \<notin> {geojson, geojsonseq, html})"

text \<open>\<open>output_type in (MediaType.csv, MediaType.json, MediaType.ndjson)\<close>\<close>

definition row_output :: "MediaType \<Rightarrow> bool" where
  "row_output output_type = (output_type \<in> {csv, json, ndjson})"

text \<open>
  The CSV, JSON and NDJSON responses of the list and search handlers
  (lines 164--186, 600--622, 761--783); \<open>rows\<close> is what the generator yields.
\<close>

definition rows_response :: "MediaType \<Rightarrow> pyval dict list \<Rightarrow> response" where
  "rows_response output_type rows =
     (if output_type = csv then
        StreamingResponse (Rows rows) csv ''attachment;filename=items.csv''
      else if output_type = json then ORJSONResponse (Rows rows)
      else StreamingResponse (Rows rows) ndjson ''attachment;filename=items.ndjson'')"

text \<open>
  The \<open>next\<close> link (lines 207--222, 625--637, 786--798): the query parameters are
  \<open>QueryParams({**request.query_params, "offset": next_token})\<close>; \<open>url\<close> is the route's
  \<open>url_for\<close>.
\<close>

definition next_link :: "boundary \<Rightarrow> Request \<Rightarrow> string \<Rightarrow> string \<Rightarrow> Link" where
  "next_link b request url next_token =
     (let next_params = dict_set (qp_dict (query_params request)) ''offset'' next_token
      in \<lparr> href = url @ ''?'' @ urlencode b next_params,
           rel = ''next'',
           link_type = ''application/geo+json'',
           link_title = Some ''Next page'' \<rparr>)"

text \<open>
  The \<open>prev\<close> link (lines 224--240, 639--655, 800--816): \<open>qp.pop("offset")\<close> raises
  \<open>KeyError\<close> when the key is missing.
\<close>

definition prev_link :: "boundary \<Rightarrow> Request \<Rightarrow> string \<Rightarrow> string \<Rightarrow> error + Link" where
  "prev_link b request url prev_token =
     (let qp = qp_dict (query_params request)
      in if \<not> dict_contains qp ''offset'' then Inl (KeyError ''offset'')
         else
           (let qp = dict_del qp ''offset'';
                prev_params = dict_set qp ''offset'' prev_token;
                url = (if prev_params \<noteq> [] then url @ ''?'' @ urlencode b prev_params else url)
            in Inr \<lparr> href = url,
                     rel = ''prev'',
                     link_type = ''application/geo+json'',
                     link_title = Some ''Previous page'' \<rparr>))"

text \<open>
  Both blocks in sequence, appending to \<open>links\<close>: the \<open>next\<close> block runs when the token is
  truthy, the \<open>prev\<close> block when the token is not \<open>None\<close>.
\<close>

definition pagination_links ::
  "boundary \<Rightarrow> Request \<Rightarrow> string \<Rightarrow> ItemList \<Rightarrow> Link list \<Rightarrow> error + Link list" where
  "pagination_links b request url item_list links0 =
     (let links1 =
            (case il_next item_list of
               None \<Rightarrow> links0
             | Some next_token \<Rightarrow>
                 if next_token = [] then links0
                 else links0 @ [next_link b request url next_token])
      in case il_prev item_list of
           None \<Rightarrow> Inr links1
         | Some prev_token \<Rightarrow>
             and_then (prev_link b request url prev_token) (\<lambda>l. Inr (links1 @ [l])))"

text \<open>The two links every feature of a list or search document gets.\<close>

definition feature_links :: "boundary \<Rightarrow> pyval \<Rightarrow> pyval \<Rightarrow> Link list" where
  "feature_links b collectionId itemId =
     [\<lparr> href = url_for b ''collection'' [(''collectionId'', collectionId)],
        rel = ''collection'',
        link_type = ''application/json'',
        link_title = Some ''Collection'' \<rparr>,
      \<lparr> href = url_for b ''item'' [(''collectionId'', collectionId), (''itemId'', itemId)],
        rel = ''item'',
        link_type = ''application/geo+json'',
        link_title = Some ''Item'' \<rparr>]"

section \<open>factory.py: items\<close>

text \<open>
  One flattened row of the list handler (lines 150--162): the dict display
  \<open>{"collectionId": ..., "itemId": ..., **properties, "geometry": ...}\<close> filtered by
  \<open>v is not None\<close>.
\<close>

definition items_row :: "PgSTACCollection \<Rightarrow> Feature \<Rightarrow> pyval dict" where
  "items_row collection f =
     filter (\<lambda>kv. snd kv \<noteq> PNone)
       (dict_of ([(''collectionId'', PStr (coll_id collection)), (''itemId'', feature_id f)]
                 @ feature_properties f
                 @ [(''geometry'', feature_geometry f)]))"

text \<open>The keyword arguments of the feature search of the list handler (lines 129--143).\<close>

definition items_features_kwargs ::
  "string list option \<Rightarrow> pyfloat list option \<Rightarrow> string list option \<Rightarrow> string list option
     \<Rightarrow> AstType option \<Rightarrow> string option \<Rightarrow> string option \<Rightarrow> int \<Rightarrow> string option
     \<Rightarrow> bool option \<Rightarrow> pyfloat option \<Rightarrow> bool \<Rightarrow> features_kwargs" where
  "items_features_kwargs ids_filter bbox_filter datetime_filter properties cql_filter sortby
       query limit offset bbox_only simplify geom_as_wkt =
     \<lparr> kw_ids_filter = ids_filter,
       kw_bbox_filter = bbox_filter,
       kw_datetime_filter = datetime_filter,
       kw_cql_filter = cql_filter,
       kw_sortby = sortby,
       kw_properties = properties,
       kw_limit = Some limit,
       kw_token = offset,
       kw_bbox_only = bbox_only,
       kw_simplify = simplify,
       kw_geom_as_wkt = geom_as_wkt,
       kw_query = query \<rparr>"

definition items ::
  "boundary \<Rightarrow> Request \<Rightarrow> PgSTACCollection \<Rightarrow> string list option \<Rightarrow> pyfloat list option
     \<Rightarrow> string list option \<Rightarrow> string list option \<Rightarrow> AstType option \<Rightarrow> string option
     \<Rightarrow> string option \<Rightarrow> int \<Rightarrow> string option \<Rightarrow> bool option \<Rightarrow> pyfloat option
     \<Rightarrow> MediaType option \<Rightarrow> error + response" where
  "items b request collection ids_filter bbox_filter datetime_filter properties cql_filter
       sortby query limit offset bbox_only simplify output_type =
     (let output_type = resolve_output_type output_type;
          geom_as_wkt = geom_as_wkt_of output_type
      in and_then
           (collection_features b collection
              (items_features_kwargs ids_filter bbox_filter datetime_filter properties
                 cql_filter sortby query limit offset bbox_only simplify geom_as_wkt))
           (\<lambda>item_list.
              if row_output output_type then
                Inr (rows_response output_type (map (items_row collection) (il_items item_list)))
              else
                (let collectionId = [(''collectionId'', PStr (coll_id collection))];
                     qs = (if query_params request \<noteq> []
                           then ''?'' @ urlencode b (query_params request) else []);
                     links0 =
                       [\<lparr> href = url_for b ''collection'' collectionId,
                          rel = ''collection'',
                          link_type = ''application/json'',
                          link_title = Some ''Collection'' \<rparr>,
                        \<lparr> href = url_for b ''items'' collectionId @ qs,
                          rel = ''self'',
                          link_type = ''application/geo+json'',
                          link_title = Some ''Items'' \<rparr>]
                 in and_then
                      (pagination_links b request (url_for b ''items'' collectionId)
                         item_list links0)
                      (\<lambda>links.
                         (let data =
                                \<lparr> fc_id = Some (coll_id collection),
                                  fc_title =
                                    Some (str_or (coll_title collection) (coll_id collection)),
                                  fc_description =
                                    str_or (coll_description collection)
                                      (str_or (coll_title collection) (coll_id collection)),
                                  numberMatched = il_matched item_list,
                                  numberReturned = length (il_items item_list),
                                  links = links,
                                  features =
                                    map (\<lambda>feature.
                                           (feature,
                                            feature_links b (PStr (coll_id collection))
                                              (feature_id feature)))
                                      (il_items item_list) \<rparr>
                          in Inr (if output_type = html then
                                    HTMLResponse (CollectionDoc data) ''items''
                                  else if output_type = geojsonseq then
                                    StreamingResponse (FeatureSeq (features data)) geojsonseq
                                      ''attachment;filename=items.geojson''
                                  else GeoJSONResponse (CollectionDoc data)))))))"

section \<open>factory.py: item\<close>

text \<open>The keyword arguments of the feature search of the single-item handler (lines 355--362).\<close>

definition item_features_kwargs ::
  "string \<Rightarrow> bool option \<Rightarrow> pyfloat option \<Rightarrow> string list option \<Rightarrow> MediaType
     \<Rightarrow> features_kwargs" where
  "item_features_kwargs itemId bbox_only simplify properties output_type =
     \<lparr> kw_ids_filter = Some [itemId],
       kw_bbox_filter = None,
       kw_datetime_filter = None,
       kw_cql_filter = None,
       kw_sortby = None,
       kw_properties = properties,
       kw_limit = None,
       kw_token = None,
       kw_bbox_only = bbox_only,
       kw_simplify = simplify,
       kw_geom_as_wkt = geom_as_wkt_of output_type,
       kw_query = None \<rparr>"

text \<open>The row of the single-item handler (lines 376--383).\<close>

definition item_row :: "PgSTACCollection \<Rightarrow> Feature \<Rightarrow> pyval dict" where
  "item_row collection feature =
     (let row = dict_of ([(''collectionId'', PStr (coll_id collection)),
                          (''itemId'', feature_id feature)]
                         @ feature_properties feature)
      in if feature_geometry feature \<noteq> PNone
         then dict_set row ''geometry'' (PTuple [feature_geometry feature])
         else row)"

definition item ::
  "boundary \<Rightarrow> Request \<Rightarrow> PgSTACCollection \<Rightarrow> string \<Rightarrow> bool option \<Rightarrow> pyfloat option
     \<Rightarrow> string list option \<Rightarrow> MediaType option \<Rightarrow> error + response" where
  "item b request collection itemId bbox_only simplify properties output_type =
     (if id_column collection = None then
        Inl (NoPrimaryKey ''No primary key is set on this table'')
      else
        (let output_type = resolve_output_type output_type
         in and_then
              (collection_features b collection
                 (item_features_kwargs itemId bbox_only simplify properties output_type))
              (\<lambda>item_list.
                 case il_items item_list of
                   [] \<Rightarrow>
                     Inl (NotFound (''Item '' @ itemId @ '' in Collection ''
                                    @ coll_id collection @ '' does not exist.''))
                 | feature # _ \<Rightarrow>
                     if row_output output_type then
                       (let rows = [item_row collection feature]
                        in Inr (if output_type = csv then
                                  StreamingResponse (Rows rows) csv
                                    ''attachment;filename=items.csv''
                                else if output_type = json then ORJSONResponse (Row (hd rows))
                                else StreamingResponse (Rows rows) ndjson
                                       ''attachment;filename=items.ndjson''))
                     else
                       (let data_links =
                              [\<lparr> href = url_for b ''collection''
                                          [(''collectionId'', PStr (coll_id collection))],
                                 rel = ''collection'',
                                 link_type = ''application/json'',
                                 link_title = None \<rparr>,
                               \<lparr> href = url_for b ''item''
                                          [(''collectionId'', PStr (coll_id collection)),
                                           (''itemId'', PStr itemId)],
                                 rel = ''self'',
                                 link_type = ''application/geo+json'',
                                 link_title = None \<rparr>]
                        in Inr (if output_type = html then
                                  HTMLResponse (FeatureDoc feature data_links) ''item''
                                else GeoJSONResponse (FeatureDoc feature data_links))))))"

section \<open>factory.py: get\_search and post\_search\<close>

text \<open>
  Datetime validation (lines 512--535). \<open>open_ended d\<close> is \<open>d in ["..", ""]\<close>;
  \<open>interval_end\<close> is the conditional expression computing \<open>start\<close> and \<open>end\<close>, where
  \<open>parse_rfc3339\<close> may raise.
\<close>

definition open_ended :: "string \<Rightarrow> bool" where
  "open_ended d = (d \<in> {''..'', []})"

definition interval_end :: "boundary \<Rightarrow> string \<Rightarrow> error + int option" where
  "interval_end b d =
     (if \<not> open_ended d then and_then (parse_rfc3339 b d) (\<lambda>t. Inr (Some t)) else Inr None)"

definition check_interval :: "boundary \<Rightarrow> string \<Rightarrow> string \<Rightarrow> error + unit" where
  "check_interval b d0 d1 =
     and_then (interval_end b d0) (\<lambda>start.
     and_then (interval_end b d1) (\<lambda>end_dt.
       case (start, end_dt) of
         (None, None) \<Rightarrow>
           Inl (InvalidDatetime ''Double open-ended datetime intervals are not allowed.'')
       | (Some s, Some e) \<Rightarrow>
           if s > e then Inl (InvalidDatetime ''Start datetime cannot be before end datetime.'')
           else Inr ()
       | _ \<Rightarrow> Inr ()))"

text \<open>
  The value of \<open>datetime_filter\<close> after the block: \<open>None\<close> when the filter was falsy
  (\<open>None\<close> or an empty list), the joined string otherwise.
\<close>

definition get_search_datetime :: "boundary \<Rightarrow> string list option \<Rightarrow> error + string option" where
  "get_search_datetime b datetime_filter =
     (case datetime_filter of
        None \<Rightarrow> Inr None
      | Some dt \<Rightarrow>
          if dt = [] then Inr None
          else and_then
                 (case dt of [d0, d1] \<Rightarrow> check_interval b d0 d1 | _ \<Rightarrow> Inr ())
                 (\<lambda>_. Inr (Some (str_join ''/'' dt))))"

text \<open>
  \<open>re.match("^(?P<direction>[+-]?)(?P<prop>.*)$", s)\<close>, as the pair of its two groups.
  Without flags \<open>.\<close> matches any character but a line feed and \<open>$\<close> matches at the end of
  the string or before a line feed that ends it. So the match exists exactly when the
  first line feed of \<open>s\<close>, if there is one, is its last character; \<open>prop\<close> is what stands
  between the sign and that place. (Giving the sign to \<open>prop\<close> instead does not move the
  place where \<open>.*\<close> has to stop.)
\<close>

definition re_match_sortby :: "string \<Rightarrow> (string \<times> string) option" where
  "re_match_sortby s =
     (let direction =
            (case s of
               [] \<Rightarrow> []
             | c # _ \<Rightarrow> if c = CHR ''+'' \<or> c = CHR ''-'' then [c] else []);
          rest = drop (length direction) s;
          prop = takeWhile (\<lambda>c. c \<noteq> CHR 0x0A) rest;
          tail = dropWhile (\<lambda>c. c \<noteq> CHR 0x0A) rest
      in if tail = [] \<or> tail = [CHR 0x0A] then Some (direction, prop) else None)"

text \<open>The body of the loop over the sort terms (lines 556--565): what it appends.\<close>

definition sort_term :: "string \<Rightarrow> pyval list" where
  "sort_term s =
     (case re_match_sortby s of
        None \<Rightarrow> []
      | Some (direction, prop) \<Rightarrow>
          [PDict [(''field'', PStr (str_strip prop)),
                  (''direction'', PStr (if direction = ''-'' then ''desc'' else ''asc''))]])"

text \<open>\<open>sort_param\<close> (lines 554--565).\<close>

definition get_search_sortby :: "string \<Rightarrow> pyval list" where
  "get_search_sortby sortby = concat (map sort_term (str_split CHR '','' (str_strip sortby)))"

text \<open>An optional list of strings or floats as a Python value.\<close>

definition opt_list :: "('a \<Rightarrow> pyval) \<Rightarrow> 'a list option \<Rightarrow> pyval" where
  "opt_list f xs = (case xs of None \<Rightarrow> PNone | Some ys \<Rightarrow> PList (map f ys))"

definition opt_str :: "string option \<Rightarrow> pyval" where
  "opt_str s = (case s of None \<Rightarrow> PNone | Some v \<Rightarrow> PStr v)"

text \<open>
  The statements that extend \<open>base_args\<close> after its dict display: the filter
  (lines 546--548, where \<open>json.loads\<close> may raise and a syntax tree object is truthy), the
  datetime (lines 550--551, on the result of the datetime block), the sort specification
  (lines 553--567) and the field projection (lines 569--570).
\<close>

definition set_filter :: "boundary \<Rightarrow> AstType option \<Rightarrow> pyval dict \<Rightarrow> error + pyval dict" where
  "set_filter b cql_filter base_args =
     (case cql_filter of
        None \<Rightarrow> Inr base_args
      | Some ast \<Rightarrow>
          and_then (json_loads b (to_cql2 b ast))
            (\<lambda>filter_value.
               Inr (dict_set (dict_set base_args ''filter'' filter_value)
                      ''filter-lang'' (PStr ''cql2-json''))))"

definition set_datetime :: "string option \<Rightarrow> pyval dict \<Rightarrow> pyval dict" where
  "set_datetime datetime base_args =
     (case datetime of
        None \<Rightarrow> base_args
      | Some d \<Rightarrow> if d = [] then base_args else dict_set base_args ''datetime'' (PStr d))"

definition set_sortby :: "string option \<Rightarrow> pyval dict \<Rightarrow> pyval dict" where
  "set_sortby sortby base_args =
     (case sortby of
        None \<Rightarrow> base_args
      | Some s \<Rightarrow>
          if s = [] then base_args
          else dict_set base_args ''sortby'' (PList (get_search_sortby s)))"

definition set_fields :: "string list option \<Rightarrow> pyval dict \<Rightarrow> pyval dict" where
  "set_fields properties base_args =
     (case properties of
        None \<Rightarrow> base_args
      | Some ps \<Rightarrow>
          if ps = [] then base_args
          else dict_set base_args ''fields''
                 (PDict [(''include'', PSet (set ps)), (''exclude'', PSet {})]))"

text \<open>
  \<open>json.loads(unquote_plus(query)) if query else query\<close> (line 543), which may raise.
\<close>

definition query_value :: "boundary \<Rightarrow> string option \<Rightarrow> error + pyval" where
  "query_value b query =
     (case query of
        None \<Rightarrow> Inr PNone
      | Some q \<Rightarrow> if q = [] then Inr (PStr q) else json_loads b (unquote_plus b q))"

text \<open>
  \<open>base_args\<close> (lines 537--570): the dict display, then the four statements;
  \<open>datetime\<close> is the result of the datetime block.
\<close>

definition get_search_base_args ::
  "boundary \<Rightarrow> string list option \<Rightarrow> string list option \<Rightarrow> pyfloat list option
     \<Rightarrow> string option \<Rightarrow> string list option \<Rightarrow> AstType option \<Rightarrow> string option
     \<Rightarrow> string option \<Rightarrow> int \<Rightarrow> string option \<Rightarrow> error + pyval dict" where
  "get_search_base_args b collections_filter ids_filter bbox_filter datetime properties
       cql_filter sortby query limit offset =
     and_then (query_value b query)
       (\<lambda>qv.
          and_then
            (set_filter b cql_filter
               (dict_of
                  [(''collections'', opt_list PStr collections_filter),
                   (''ids'', opt_list PStr ids_filter),
                   (''bbox'', opt_list PFloat bbox_filter),
                   (''limit'', PInt (if limit \<noteq> 0 then limit else default_features_limit b)),
                   (''token'', opt_str offset),
                   (''query'', qv)]))
            (\<lambda>base_args.
               Inr (set_fields properties (set_sortby sortby (set_datetime datetime base_args)))))"

text \<open>\<open>clean\<close> (lines 572--575): the entries with \<open>v is not None and v != []\<close>.\<close>

definition clean_args :: "pyval dict \<Rightarrow> pyval dict" where
  "clean_args base_args = filter (\<lambda>kv. snd kv \<noteq> PNone \<and> snd kv \<noteq> PList []) base_args"

text \<open>
  The assembled search request of GET /search: the dict \<open>clean\<close> that is handed to
  \<open>PgSTACSearch.model_validate\<close> (lines 512--575).
\<close>

definition get_search_request ::
  "boundary \<Rightarrow> string list option \<Rightarrow> string list option \<Rightarrow> pyfloat list option
     \<Rightarrow> string list option \<Rightarrow> string list option \<Rightarrow> AstType option \<Rightarrow> string option
     \<Rightarrow> string option \<Rightarrow> int \<Rightarrow> string option \<Rightarrow> error + pyval dict" where
  "get_search_request b collections_filter ids_filter bbox_filter datetime_filter properties
       cql_filter sortby query limit offset =
     and_then (get_search_datetime b datetime_filter) (\<lambda>datetime.
     and_then
       (get_search_base_args b collections_filter ids_filter bbox_filter datetime properties
          cql_filter sortby query limit offset)
       (\<lambda>base_args. Inr (clean_args base_args)))"

text \<open>One flattened row of the search handlers (lines 586--598, 747--759).\<close>

definition search_row :: "Feature \<Rightarrow> pyval dict" where
  "search_row f =
     filter (\<lambda>kv. snd kv \<noteq> PNone)
       (dict_of ([(''collectionId'', feature_collection f), (''itemId'', feature_id f)]
                 @ feature_properties f
                 @ [(''geometry'', feature_geometry f)]))"

text \<open>
  What both search handlers do with the envelope (lines 581--711 and 742--872, which
  agree line by line).
\<close>

definition search_response ::
  "boundary \<Rightarrow> Request \<Rightarrow> MediaType \<Rightarrow> ItemList \<Rightarrow> error + response" where
  "search_response b request output_type item_list =
     (if row_output output_type then
        Inr (rows_response output_type (map search_row (il_items item_list)))
      else
        and_then (pagination_links b request (url_for b ''get_search'' []) item_list [])
          (\<lambda>links.
             (let data =
                    \<lparr> fc_id = None,
                      fc_title = None,
                      fc_description = json_dumps b (PDict (map (\<lambda>kv. (fst kv, PStr (snd kv)))
                                                         (qp_dict (query_params request)))),
                      numberMatched = il_matched item_list,
                      numberReturned = length (il_items item_list),
                      links = links,
                      features =
                        map (\<lambda>feature.
                               (feature,
                                feature_links b (feature_collection feature)
                                  (feature_id feature)))
                          (il_items item_list) \<rparr>
              in Inr (if output_type = html then HTMLResponse (CollectionDoc data) ''search''
                      else if output_type = geojsonseq then
                        StreamingResponse (FeatureSeq (features data)) geojsonseq
                          ''attachment;filename=search.geojson''
                      else GeoJSONResponse (CollectionDoc data)))))"

text \<open>
  GET /search. The parameters \<open>bbox_only\<close> and \<open>simplify\<close> are accepted and not used.
\<close>

definition get_search ::
  "boundary \<Rightarrow> Request \<Rightarrow> string list option \<Rightarrow> string list option \<Rightarrow> pyfloat list option
     \<Rightarrow> string list option \<Rightarrow> string list option \<Rightarrow> AstType option \<Rightarrow> string option
     \<Rightarrow> string option \<Rightarrow> int \<Rightarrow> string option \<Rightarrow> bool option \<Rightarrow> pyfloat option
     \<Rightarrow> MediaType option \<Rightarrow> error + response" where
  "get_search b request collections_filter ids_filter bbox_filter datetime_filter properties
       cql_filter sortby query limit offset bbox_only simplify output_type =
     (let output_type = resolve_output_type output_type
      in and_then
           (get_search_request b collections_filter ids_filter bbox_filter datetime_filter
              properties cql_filter sortby query limit offset)
           (\<lambda>clean.
              and_then (model_validate b clean) (\<lambda>search.
              and_then (pgstac_search b search) (\<lambda>item_list.
                search_response b request output_type item_list))))"

text \<open>POST /search: \<open>search\<close> is the validated request body.\<close>

definition post_search ::
  "boundary \<Rightarrow> Request \<Rightarrow> PgSTACSearch \<Rightarrow> MediaType option \<Rightarrow> error + response" where
  "post_search b request search output_type =
     (let output_type = resolve_output_type output_type
      in and_then (pgstac_search b search) (\<lambda>item_list.
           search_response b request output_type item_list))"

section \<open>The sort parsing in the words of the specification\<close>

text \<open>
  "Split on commas; each term matches an optional leading sign (\<open>+\<close>/\<open>-\<close>) followed by a
  property name (whitespace trimmed); a leading \<open>-\<close> maps to descending, anything else
  (including no sign) maps to ascending."
\<close>

definition sort_entry :: "string \<Rightarrow> string \<Rightarrow> pyval" where
  "sort_entry field direction = PDict [(''field'', PStr field), (''direction'', PStr direction)]"

definition spec_sort_term :: "string \<Rightarrow> pyval" where
  "spec_sort_term t =
     (case t of
        [] \<Rightarrow> sort_entry [] ''asc''
      | c # cs \<Rightarrow>
          if c = CHR ''-'' then sort_entry (str_strip cs) ''desc''
          else if c = CHR ''+'' then sort_entry (str_strip cs) ''asc''
          else sort_entry (str_strip t) ''asc'')"

definition spec_sort_parse :: "string \<Rightarrow> pyval list" where
  "spec_sort_parse sortby = map spec_sort_term (str_split CHR '','' sortby)"

section \<open>A boundary to evaluate the handlers on\<close>

text \<open>
  \<open>sample_boundary item_list\<close> answers every backend call with the envelope \<open>item_list\<close>,
  joins query parameters as \<open>k=v\<close> with \<open>&\<close>, parses two datetimes and rejects every
  other string, and reads \<open>{}\<close> as the only JSON text.
\<close>

definition sample_urlencode :: "(string \<times> string) list \<Rightarrow> string" where
  "sample_urlencode ps = str_join ''&'' (map (\<lambda>kv. fst kv @ ''='' @ snd kv) ps)"

definition sample_parse_rfc3339 :: "string \<Rightarrow> error + int" where
  "sample_parse_rfc3339 s =
     (if s = ''2024-01-01T00:00:00Z'' then Inr 1704067200
      else if s = ''2023-01-01T00:00:00Z'' then Inr 1672531200
      else Inl (ValueError ''Invalid RFC 3339 date/time''))"

definition sample_boundary :: "ItemList \<Rightarrow> boundary" where
  "sample_boundary item_list =
     \<lparr> url_for = (\<lambda>route path_params. ''/'' @ route),
       urlencode = sample_urlencode,
       unquote_plus = (\<lambda>s. s),
       json_loads = (\<lambda>s. if s = ''{}'' then Inr (PDict [])
                          else Inl (BoundaryError ''JSONDecodeError'')),
       json_dumps = (\<lambda>v. ''{}''),
       to_cql2 = (\<lambda>ast. ''{}''),
       parse_rfc3339 = sample_parse_rfc3339,
       collection_features = (\<lambda>collection kwargs. Inr item_list),
       model_validate = (\<lambda>clean. Inr clean),
       pgstac_search = (\<lambda>search. Inr item_list),
       default_features_limit = 10 \<rparr>"

definition sample_feature :: Feature where
  "sample_feature =
     \<lparr> feature_id = PStr ''item-1'',
       feature_collection = PStr ''landsat'',
       feature_properties = [(''datetime'', PStr ''2024-01-01T00:00:00Z''), (''cloud'', PNone)],
       feature_geometry = PStr ''POINT(1 2)'',
       feature_rest = [(''type'', PStr ''Feature'')] \<rparr>"

definition sample_collection :: PgSTACCollection where
  "sample_collection =
     \<lparr> coll_id = ''landsat'', coll_title = None, coll_description = None,
       id_column = Some ''id'' \<rparr>"

definition sample_item_list :: "string option \<Rightarrow> string option \<Rightarrow> ItemList" where
  "sample_item_list next_token prev_token =
     \<lparr> il_items = [sample_feature], il_matched = Some 1,
       il_next = next_token, il_prev = prev_token \<rparr>"

section \<open>The datetime interval in the words of the specification\<close>



section \<open>The optional entries of the search request\<close>

text \<open>What the datetime, sort and field statements add to \<open>base_args\<close>, as lists of entries.\<close>

definition datetime_args :: "string option \<Rightarrow> pyval dict" where
  "datetime_args datetime =
     (case datetime of None \<Rightarrow> [] | Some d \<Rightarrow> if d = [] then [] else [(''datetime'', PStr d)])"

definition sortby_args :: "string option \<Rightarrow> pyval dict" where
  "sortby_args sortby =
     (case sortby of
        None \<Rightarrow> []
      | Some s \<Rightarrow> if s = [] then [] else [(''sortby'', PList (get_search_sortby s))])"

definition fields_args :: "string list option \<Rightarrow> pyval dict" where
  "fields_args properties =
     (case properties of
        None \<Rightarrow> []
      | Some ps \<Rightarrow>
          if ps = [] then []
          else [(''fields'', PDict [(''include'', PSet (set ps)), (''exclude'', PSet {})])])"

definition filter_args :: "boundary \<Rightarrow> AstType option \<Rightarrow> error + pyval dict" where
  "filter_args b cql_filter =
     (case cql_filter of
        None \<Rightarrow> Inr []
      | Some ast \<Rightarrow>
          and_then (json_loads b (to_cql2 b ast))
            (\<lambda>fv. Inr [(''filter'', fv), (''filter-lang'', PStr ''cql2-json'')]))"

section \<open>Pagination links in the words of the specification\<close>

text \<open>
  \<open>rel_links r ls\<close>: the links of relation \<open>r\<close>. \<open>links_of result\<close>: the collection-level
  links of a handler's result, none when it is an error or a response without links.
\<close>

definition rel_links :: "string \<Rightarrow> Link list \<Rightarrow> Link list" where
  "rel_links r ls = filter (\<lambda>l. rel l = r) ls"

definition links_of :: "error + response \<Rightarrow> Link list" where
  "links_of result =
     (case result of
        Inl _ \<Rightarrow> []
      | Inr resp \<Rightarrow> (case response_links resp of None \<Rightarrow> [] | Some ls \<Rightarrow> ls))"

text \<open>
  A query string "with the \<open>offset\<close> parameter set" (overwritten where it stands, or
  added at the end), and one where the parameter is "removed and re-added" (at the end).
\<close>

definition offset_set :: "(string \<times> string) list \<Rightarrow> string \<Rightarrow> (string \<times> string) list" where
  "offset_set params token =
     (if ''offset'' \<in> fst ` set params
      then map (\<lambda>kv. if fst kv = ''offset'' then (''offset'', token) else kv) params
      else params @ [(''offset'', token)])"

definition offset_readded :: "(string \<times> string) list \<Rightarrow> string \<Rightarrow> (string \<times> string) list" where
  "offset_readded params token =
     filter (\<lambda>kv. fst kv \<noteq> ''offset'') params @ [(''offset'', token)]"

text \<open>The page link of relation \<open>r\<close> to \<open>url\<close> with the query parameters \<open>params\<close>.\<close>

definition page_link ::
  "boundary \<Rightarrow> string \<Rightarrow> string \<Rightarrow> string \<Rightarrow> (string \<times> string) list \<Rightarrow> Link" where
  "page_link b r title url params =
     \<lparr> href = url @ ''?'' @ urlencode b params,
       rel = r,
       link_type = ''application/geo+json'',
       link_title = Some title \<rparr>"

text \<open>
  \<open>paged b request url item_list ls\<close>: among the links \<open>ls\<close> there is exactly one
  \<open>next\<close> link when the envelope has a non-empty next token and none otherwise, exactly
  one \<open>prev\<close> link when it has a prev token and none otherwise, each to \<open>url\<close> with the
  parameters of the request (every name once) and the token as \<open>offset\<close>.
\<close>

definition paged :: "boundary \<Rightarrow> Request \<Rightarrow> string \<Rightarrow> ItemList \<Rightarrow> Link list \<Rightarrow> bool" where
  "paged b request url item_list ls =
     (rel_links ''next'' ls
        = (case il_next item_list of
             None \<Rightarrow> []
           | Some t \<Rightarrow>
               if t = [] then []
               else [page_link b ''next'' ''Next page'' url
                       (offset_set (qp_dict (query_params request)) t)])
      \<and> rel_links ''prev'' ls
        = (case il_prev item_list of
             None \<Rightarrow> []
           | Some t \<Rightarrow>
               [page_link b ''prev'' ''Previous page'' url
                  (offset_readded (qp_dict (query_params request)) t)]))"

section \<open>Properties of the string helpers\<close>

lemma str_split_not_Nil: "str_split sep s \<noteq> []"
  by (induction s) (auto split: list.splits)

lemma str_join_str_split: "str_join [sep] (str_split sep s) = s"
proof (induction s)
  case Nil
  then show ?case by simp
next
  case (Cons c cs)
  obtain p ps where ps: "str_split sep cs = p # ps"
    using str_split_not_Nil [of sep cs] by (cases "str_split sep cs") auto
  with Cons show ?case by (cases ps) auto
qed

lemma length_str_split: "length (str_split sep s) = Suc (count_list s sep)"
  by (induction s) (auto split: list.splits simp: str_split_not_Nil)

lemma str_split_no_sep: "p \<in> set (str_split sep s) \<Longrightarrow> sep \<notin> set p"
  by (induction s arbitrary: p) (auto split: list.splits if_splits)

lemma str_rstrip_prefix: "str_rstrip t @ rev (takeWhile py_isspace (rev t)) = t"
proof -
  have "rev (takeWhile py_isspace (rev t) @ dropWhile py_isspace (rev t)) = t"
    by simp
  then show ?thesis
    unfolding str_rstrip_def rev_append .
qed

lemma trimmed_str_strip: "trimmed (str_strip s)"
proof (cases "str_strip s = []")
  case True
  then show ?thesis by (simp add: trimmed_def)
next
  case False
  define t where "t = str_lstrip s"
  define r where "r = str_rstrip t"
  have r: "r = str_strip s" by (simp add: r_def t_def str_strip_def)
  with False have rne: "r \<noteq> []" by simp
  have "dropWhile py_isspace (rev t) \<noteq> []"
    using rne by (simp add: r_def str_rstrip_def)
  then have "\<not> py_isspace (hd (dropWhile py_isspace (rev t)))"
    by (rule hd_dropWhile)
  then have last: "\<not> py_isspace (last r)"
    using rne by (simp add: r_def str_rstrip_def last_rev)
  have tr: "t = r @ rev (takeWhile py_isspace (rev t))"
    using str_rstrip_prefix [of t] by (simp add: r_def)
  then have "hd t = hd r" using rne by (metis hd_append2)
  moreover have "t \<noteq> []" using tr rne by auto
  then have "\<not> py_isspace (hd t)"
    unfolding t_def str_lstrip_def by (rule hd_dropWhile)
  ultimately have "\<not> py_isspace (hd r)" by simp
  with last rne show ?thesis by (simp add: trimmed_def r)
qed

lemma str_strip_snoc_space:
  assumes "py_isspace c"
  shows "str_strip (xs @ [c]) = str_strip xs"
proof (cases "\<forall>x \<in> set xs. py_isspace x")
  case True
  then have "dropWhile py_isspace (xs @ [c]) = []" and "dropWhile py_isspace xs = []"
    using assms by auto
  then show ?thesis by (simp only: str_strip_def str_lstrip_def)
next
  case False
  then obtain x where "x \<in> set xs" and "\<not> py_isspace x" by blast
  then have "dropWhile py_isspace (xs @ [c]) = dropWhile py_isspace xs @ [c]"
    by (rule dropWhile_append1)
  then show ?thesis
    using assms by (simp add: str_strip_def str_lstrip_def str_rstrip_def)
qed

lemma dropWhile_neq_last:
  "(dropWhile (\<lambda>c. c \<noteq> x) xs = [] \<or> dropWhile (\<lambda>c. c \<noteq> x) xs = [x]) \<longleftrightarrow> x \<notin> set (butlast xs)"
  by (induction xs) (auto split: if_splits)

lemma takeWhile_neq_last:
  "x \<notin> set (butlast xs) \<Longrightarrow>
   takeWhile (\<lambda>c. c \<noteq> x) xs = xs \<or> xs = takeWhile (\<lambda>c. c \<noteq> x) xs @ [x]"
  by (induction xs) (auto split: if_splits)

text \<open>
  Claim C9. The settings object: the display name defaults to
  "TiPg STAC: Use PgSTAC as backend", the debug flag to false, the cache-control header to
  "public, max-age=3600", the template directory is absent by default, and the CORS
  origins value, set or left at its default \<open>"*"\<close>, is split on commas into the ordered
  list of its trimmed pieces: as many pieces as commas plus one, none of them holding a
  comma, none of them starting or ending with whitespace; \<open>"a, b ,c"\<close> gives
  \<open>["a", "b", "c"]\<close> and the default gives \<open>["*"]\<close>.
\<close>

theorem APISettings_defaults_and_cors_origins:
  "name (APISettings_init None e_debug e_cors e_cache e_dir) = ''TiPg STAC: Use PgSTAC as backend''
   \<and> debug (APISettings_init e_name None e_cors e_cache e_dir) = False
   \<and> cachecontrol (APISettings_init e_name e_debug e_cors None e_dir) = ''public, max-age=3600''
   \<and> template_directory (APISettings_init e_name e_debug e_cors e_cache None) = None
   \<and> cors_origins (APISettings_init e_name e_debug None e_cache e_dir) = [''*'']
   \<and> cors_origins (APISettings_init e_name e_debug (Some v) e_cache e_dir)
       = map str_strip (str_split CHR '','' v)
   \<and> str_join '','' (str_split CHR '','' v) = v
   \<and> length (parse_cors_origin v) = Suc (count_list v CHR '','')
   \<and> list_all trimmed (parse_cors_origin v)
   \<and> list_all (\<lambda>origin. CHR '','' \<notin> set origin) (parse_cors_origin v)
   \<and> parse_cors_origin ''a, b ,c'' = [''a'', ''b'', ''c'']"
proof -
  have strip_star: "parse_cors_origin ''*'' = [''*'']"
    by (simp add: parse_cors_origin_def str_strip_def str_lstrip_def str_rstrip_def
        py_isspace_def)
  have abc: "parse_cors_origin ''a, b ,c'' = [''a'', ''b'', ''c'']"
    by (simp add: parse_cors_origin_def str_strip_def str_lstrip_def str_rstrip_def
        py_isspace_def)
  have tr: "list_all trimmed (parse_cors_origin v)"
    by (simp add: parse_cors_origin_def list_all_iff trimmed_str_strip)
  have sub: "set (str_strip s) \<subseteq> set s" for s
  proof -
    have "set (str_rstrip t) \<subseteq> set t" for t
      using str_rstrip_prefix [of t] by (metis Un_upper1 set_append)
    moreover have "set (str_lstrip s) \<subseteq> set s"
      unfolding str_lstrip_def by (rule set_dropWhileD [THEN subsetI]) 
    ultimately show ?thesis unfolding str_strip_def by blast
  qed
  have nc: "list_all (\<lambda>origin. CHR '','' \<notin> set origin) (parse_cors_origin v)"
    unfolding parse_cors_origin_def list_all_iff
    using sub str_split_no_sep by fastforce
  show ?thesis
    using strip_star abc tr nc
    by (simp add: APISettings_init_def str_join_str_split parse_cors_origin_def
        length_str_split)
qed

lemma str_strip_Nil: "str_strip [] = []"
  by (simp add: str_strip_def str_lstrip_def str_rstrip_def)

lemma set_str_strip: "set (str_strip s) \<subseteq> set s"
proof -
  have "set (str_rstrip t) \<subseteq> set t" for t
    using str_rstrip_prefix [of t] by (metis Un_upper1 set_append)
  moreover have "set (str_lstrip s) \<subseteq> set s"
    unfolding str_lstrip_def by (rule set_dropWhileD [THEN subsetI])
  ultimately show ?thesis unfolding str_strip_def by blast
qed

lemma set_str_split: "p \<in> set (str_split sep s) \<Longrightarrow> set p \<subseteq> set s"
proof (induction s arbitrary: p)
  case Nil
  then show ?case by simp
next
  case (Cons c cs)
  obtain q qs where q: "str_split sep cs = q # qs"
    using str_split_not_Nil [of sep cs] by (cases "str_split sep cs") auto
  have "set q \<subseteq> set cs" and "\<And>r. r \<in> set qs \<Longrightarrow> set r \<subseteq> set cs"
    using Cons.IH q by simp_all
  then show ?case using Cons.prems q by (auto split: if_splits)
qed

lemma line_feed_isspace: "py_isspace (CHR 0x0A)"
  by (simp add: py_isspace_def)

lemma str_strip_takeWhile_line_feed:
  assumes "CHR 0x0A \<notin> set (butlast xs)"
  shows "str_strip (takeWhile (\<lambda>c. c \<noteq> CHR 0x0A) xs) = str_strip xs"
  using takeWhile_neq_last [OF assms] str_strip_snoc_space [OF line_feed_isspace]
  by metis

text \<open>The sign group of the pattern, and what is left for the property group.\<close>

lemma re_match_sortby_conv:
  "re_match_sortby s =
     (let direction =
            (case s of
               [] \<Rightarrow> []
             | c # _ \<Rightarrow> if c = CHR ''+'' \<or> c = CHR ''-'' then [c] else []);
          rest = drop (length direction) s
      in if CHR 0x0A \<notin> set (butlast rest)
         then Some (direction, takeWhile (\<lambda>c. c \<noteq> CHR 0x0A) rest) else None)"
  by (simp only: re_match_sortby_def Let_def dropWhile_neq_last)

lemma butlast_after_sign:
  "CHR 0x0A \<in> set (butlast (drop (length
       (case s of [] \<Rightarrow> [] | c # _ \<Rightarrow> if c = CHR ''+'' \<or> c = CHR ''-'' then [c] else [])) s))
   \<longleftrightarrow> CHR 0x0A \<in> set (butlast s)"
  by (cases s) auto

lemma sort_term_no_match:
  assumes "CHR 0x0A \<in> set (butlast t)"
  shows "sort_term t = []"
  using assms butlast_after_sign [of t]
  by (simp add: sort_term_def re_match_sortby_conv Let_def)

lemma sort_term_match:
  assumes "CHR 0x0A \<notin> set (butlast t)"
  shows "sort_term t = [spec_sort_term t]"
proof -
  define direction where
    "direction = (case t of [] \<Rightarrow> [] | c # _ \<Rightarrow> if c = CHR ''+'' \<or> c = CHR ''-'' then [c] else [])"
  define rest where "rest = drop (length direction) t"
  have ok: "CHR 0x0A \<notin> set (butlast rest)"
    using assms butlast_after_sign [of t] by (simp add: rest_def direction_def)
  then have "re_match_sortby t = Some (direction, takeWhile (\<lambda>c. c \<noteq> CHR 0x0A) rest)"
    by (simp add: re_match_sortby_conv Let_def rest_def direction_def)
  then have st: "sort_term t = [sort_entry (str_strip rest)
                                  (if direction = ''-'' then ''desc'' else ''asc'')]"
    using str_strip_takeWhile_line_feed [OF ok]
    by (simp add: sort_term_def sort_entry_def)
  show ?thesis
  proof (cases t)
    case Nil
    then show ?thesis
      using st by (simp add: direction_def rest_def spec_sort_term_def str_strip_Nil)
  next
    case (Cons c cs)
    then show ?thesis
      using st by (auto simp: direction_def rest_def spec_sort_term_def)
  qed
qed

lemma concat_map_sort_term:
  "concat (map sort_term ts)
     = map spec_sort_term (filter (\<lambda>t. CHR 0x0A \<notin> set (butlast t)) ts)"
  by (induction ts) (auto simp: sort_term_match sort_term_no_match)

section \<open>Properties of dictionaries\<close>

lemma map_of_dict_set: "map_of (dict_set d k v) = (map_of d)(k \<mapsto> v)"
  by (induction d) (auto simp: fun_eq_iff)

lemma keys_dict_set: "fst ` set (dict_set d k v) = insert k (fst ` set d)"
  by (simp add: dom_map_of_conv_image_fst [symmetric] map_of_dict_set)

lemma distinct_dict_set: "distinct (map fst d) \<Longrightarrow> distinct (map fst (dict_set d k v))"
  by (induction d) (auto simp: keys_dict_set)

lemma dict_set_new: "k \<notin> fst ` set d \<Longrightarrow> dict_set d k v = d @ [(k, v)]"
  by (induction d) auto

lemma dict_set_filter_others:
  "filter (\<lambda>kv. fst kv \<noteq> k) (dict_set d k v) = filter (\<lambda>kv. fst kv \<noteq> k) d"
  by (induction d) auto

lemma distinct_dict_update:
  "distinct (map fst d) \<Longrightarrow> distinct (map fst (dict_update d kvs))"
  by (induction d kvs rule: dict_update.induct) (auto simp: distinct_dict_set)

lemma map_of_dict_update: "map_of (dict_update d kvs) = map_of d ++ map_of (rev kvs)"
  by (induction d kvs rule: dict_update.induct)
    (auto simp: map_of_dict_set fun_eq_iff map_add_def split: option.splits)

lemma keys_dict_update: "fst ` set (dict_update d kvs) = fst ` set d \<union> fst ` set kvs"
  by (induction d kvs rule: dict_update.induct) (auto simp: keys_dict_set)

lemma dict_update_distinct_new:
  "distinct (map fst kvs) \<Longrightarrow> fst ` set d \<inter> fst ` set kvs = {} \<Longrightarrow>
   dict_update d kvs = d @ kvs"
proof (induction d kvs rule: dict_update.induct)
  case (1 d)
  then show ?case by simp
next
  case (2 d k v kvs)
  have "dict_set d k v = d @ [(k, v)]"
    using 2 by (intro dict_set_new) auto
  moreover have "fst ` set (d @ [(k, v)]) \<inter> fst ` set kvs = {}"
    using 2 by auto
  ultimately show ?case using 2 by simp
qed

lemma distinct_dict_of: "distinct (map fst (dict_of kvs))"
  by (simp add: dict_of_def distinct_dict_update)

lemma map_of_dict_of: "map_of (dict_of kvs) = map_of (rev kvs)"
  by (simp add: dict_of_def map_of_dict_update)

lemma keys_dict_of: "fst ` set (dict_of kvs) = fst ` set kvs"
  by (simp add: dict_of_def keys_dict_update)

lemma dict_of_distinct: "distinct (map fst kvs) \<Longrightarrow> dict_of kvs = kvs"
  by (simp add: dict_of_def dict_update_distinct_new)

lemma map_of_filter_distinct:
  "distinct (map fst d) \<Longrightarrow>
   map_of (filter P d) k
     = (case map_of d k of None \<Rightarrow> None | Some v \<Rightarrow> if P (k, v) then Some v else None)"
proof (induction d)
  case Nil
  then show ?case by simp
next
  case (Cons a d)
  have "fst a \<notin> fst ` set (filter P d)"
    using Cons.prems by auto
  then have "map_of (filter P d) (fst a) = None"
    by (simp add: map_of_eq_None_iff)
  moreover have "map_of d (fst a) = None"
    using Cons.prems by (simp add: map_of_eq_None_iff)
  ultimately show ?case using Cons by (cases a) (auto split: option.splits)
qed

lemma distinct_dict_del: "distinct (map fst d) \<Longrightarrow> distinct (map fst (dict_del d k))"
  by (simp add: dict_del_def distinct_map_filter)

lemma keys_dict_del: "fst ` set (dict_del d k) = fst ` set d - {k}"
  by (auto simp: dict_del_def image_iff)

section \<open>Properties of the search request\<close>

lemma and_then_Inr [simp]: "and_then (Inr x) f = f x"
  by (simp add: and_then_def)

lemma and_then_Inl [simp]: "and_then (Inl e) f = Inl e"
  by (simp add: and_then_def)

lemma and_then_eq_Inr:
  "and_then m f = Inr y \<longleftrightarrow> (\<exists>x. m = Inr x \<and> f x = Inr y)"
  by (cases m) auto

text \<open>Each statement appends under a key of its own.\<close>

lemma set_datetime_new:
  "''datetime'' \<notin> fst ` set a \<Longrightarrow> set_datetime datetime a = a @ datetime_args datetime"
  by (simp add: set_datetime_def datetime_args_def dict_set_new split: option.splits)

lemma set_sortby_new:
  "''sortby'' \<notin> fst ` set a \<Longrightarrow> set_sortby sortby a = a @ sortby_args sortby"
  by (simp add: set_sortby_def sortby_args_def dict_set_new split: option.splits)

lemma set_fields_new:
  "''fields'' \<notin> fst ` set a \<Longrightarrow> set_fields properties a = a @ fields_args properties"
  by (simp add: set_fields_def fields_args_def dict_set_new split: option.splits)

lemma keys_datetime_args: "fst ` set (datetime_args datetime) \<subseteq> {''datetime''}"
  by (cases datetime) (auto simp: datetime_args_def)

lemma keys_sortby_args: "fst ` set (sortby_args sortby) \<subseteq> {''sortby''}"
  by (cases sortby) (auto simp: sortby_args_def)

lemma keys_fields_args: "fst ` set (fields_args properties) \<subseteq> {''fields''}"
  by (cases properties) (auto simp: fields_args_def)

lemma set_filter_new:
  assumes "''filter'' \<notin> fst ` set a" and "''filter-lang'' \<notin> fst ` set a"
  shows "set_filter b cql_filter a =
           (case cql_filter of
              None \<Rightarrow> Inr a
            | Some ast \<Rightarrow>
                and_then (json_loads b (to_cql2 b ast))
                  (\<lambda>fv. Inr (a @ [(''filter'', fv), (''filter-lang'', PStr ''cql2-json'')])))"
proof (cases cql_filter)
  case None
  then show ?thesis by (simp add: set_filter_def)
next
  case (Some ast)
  have "dict_set (dict_set a ''filter'' fv) ''filter-lang'' v
          = a @ [(''filter'', fv), (''filter-lang'', v)]" for fv v
    using assms by (simp add: dict_set_new)
  with Some show ?thesis by (simp add: set_filter_def)
qed

text \<open>
  \<open>base_args\<close> as a list: the six entries of the dict display, then the entries for
  filter, datetime, sort and fields that apply, each under a key of its own.
\<close>

lemma keys_filter_args:
  "filter_args b cql_filter = Inr fa \<Longrightarrow> fst ` set fa \<subseteq> {''filter'', ''filter-lang''}"
  by (cases cql_filter) (auto simp: filter_args_def and_then_eq_Inr)

lemma get_search_base_args_flat:
  "get_search_base_args b collections_filter ids_filter bbox_filter datetime properties
       cql_filter sortby query limit offset =
     and_then (query_value b query)
       (\<lambda>qv.
          and_then (filter_args b cql_filter)
            (\<lambda>fa.
               Inr ([(''collections'', opt_list PStr collections_filter),
                     (''ids'', opt_list PStr ids_filter),
                     (''bbox'', opt_list PFloat bbox_filter),
                     (''limit'', PInt (if limit \<noteq> 0 then limit else default_features_limit b)),
                     (''token'', opt_str offset),
                     (''query'', qv)]
                    @ fa @ datetime_args datetime @ sortby_args sortby
                    @ fields_args properties)))"
proof -
  let ?six = "\<lambda>qv. [(''collections'', opt_list PStr collections_filter),
                      (''ids'', opt_list PStr ids_filter),
                      (''bbox'', opt_list PFloat bbox_filter),
                      (''limit'', PInt (if limit \<noteq> 0 then limit else default_features_limit b)),
                      (''token'', opt_str offset),
                      (''query'', qv)]"
  have six: "dict_of (?six qv) = ?six qv" for qv
    by (rule dict_of_distinct) simp
  have tail: "set_fields properties (set_sortby sortby (set_datetime datetime (?six qv @ fa)))
                = ?six qv @ fa @ datetime_args datetime @ sortby_args sortby
                    @ fields_args properties"
    if "fst ` set fa \<subseteq> {''filter'', ''filter-lang''}" for qv fa
  proof -
    have d: "set_datetime datetime (?six qv @ fa) = ?six qv @ fa @ datetime_args datetime"
      using that by (subst set_datetime_new) auto
    have s: "set_sortby sortby (?six qv @ fa @ datetime_args datetime)
               = ?six qv @ fa @ datetime_args datetime @ sortby_args sortby"
      using that keys_datetime_args [of datetime] by (subst set_sortby_new) auto
    have f: "set_fields properties (?six qv @ fa @ datetime_args datetime @ sortby_args sortby)
               = ?six qv @ fa @ datetime_args datetime @ sortby_args sortby
                   @ fields_args properties"
      using that keys_datetime_args [of datetime] keys_sortby_args [of sortby]
      by (subst set_fields_new) auto
    show ?thesis by (simp only: d s f)
  qed
  have filt: "set_filter b cql_filter (?six qv)
                = and_then (filter_args b cql_filter) (\<lambda>fa. Inr (?six qv @ fa))" for qv
    by (subst set_filter_new) (auto simp: filter_args_def and_then_def split: option.splits sum.splits)
  show ?thesis
  proof (cases "query_value b query")
    case (Inl e)
    then show ?thesis by (simp add: get_search_base_args_def)
  next
    case qv: (Inr qv)
    show ?thesis
    proof (cases "filter_args b cql_filter")
      case (Inl e)
      then show ?thesis
        by (simp only: get_search_base_args_def qv six filt and_then_Inr and_then_Inl)
    next
      case (Inr fa)
      then show ?thesis
        using tail [OF keys_filter_args [OF Inr], of qv]
        by (simp only: get_search_base_args_def qv six filt and_then_Inr)
    qed
  qed
qed

lemma map_of_datetime_args:
  "map_of (datetime_args datetime) k
     = (case datetime of
          None \<Rightarrow> None
        | Some d \<Rightarrow> if d \<noteq> [] \<and> k = ''datetime'' then Some (PStr d) else None)"
  by (cases datetime) (auto simp: datetime_args_def)

lemma map_of_sortby_args:
  "map_of (sortby_args sortby) k
     = (case sortby of
          None \<Rightarrow> None
        | Some s \<Rightarrow>
            if s \<noteq> [] \<and> k = ''sortby'' then Some (PList (get_search_sortby s)) else None)"
  by (cases sortby) (auto simp: sortby_args_def)

lemma map_of_fields_args:
  "map_of (fields_args properties) k
     = (case properties of
          None \<Rightarrow> None
        | Some ps \<Rightarrow>
            if ps \<noteq> [] \<and> k = ''fields''
            then Some (PDict [(''include'', PSet (set ps)), (''exclude'', PSet {})]) else None)"
  by (cases properties) (auto simp: fields_args_def)

lemma distinct_datetime_args: "distinct (map fst (datetime_args datetime))"
  by (cases datetime) (auto simp: datetime_args_def)

lemma distinct_sortby_args: "distinct (map fst (sortby_args sortby))"
  by (cases sortby) (auto simp: sortby_args_def)

lemma distinct_fields_args: "distinct (map fst (fields_args properties))"
  by (cases properties) (auto simp: fields_args_def)

lemma distinct_filter_args: "filter_args b cql_filter = Inr fa \<Longrightarrow> distinct (map fst fa)"
  by (cases cql_filter) (auto simp: filter_args_def and_then_eq_Inr)

lemma distinct_keys_append:
  assumes "distinct (map fst xs)" and "distinct (map fst ys)"
    and "fst ` set xs \<subseteq> A" and "fst ` set ys \<subseteq> B" and "A \<inter> B = {}"
  shows "distinct (map fst (xs @ ys)) \<and> fst ` set (xs @ ys) \<subseteq> A \<union> B"
  using assms by (auto simp: image_Un)

text \<open>The keys of \<open>base_args\<close> are distinct.\<close>

lemma distinct_base_args:
  assumes "get_search_base_args b collections_filter ids_filter bbox_filter datetime properties
             cql_filter sortby query limit offset = Inr base_args"
  shows "distinct (map fst base_args)"
proof -
  obtain qv fa where fa: "filter_args b cql_filter = Inr fa"
    and base: "base_args =
        [(''collections'', opt_list PStr collections_filter),
         (''ids'', opt_list PStr ids_filter),
         (''bbox'', opt_list PFloat bbox_filter),
         (''limit'', PInt (if limit \<noteq> 0 then limit else default_features_limit b)),
         (''token'', opt_str offset),
         (''query'', qv)]
        @ (fa @ (datetime_args datetime @ (sortby_args sortby @ fields_args properties)))"
    using assms unfolding get_search_base_args_flat and_then_eq_Inr by auto
  have 1: "distinct (map fst (sortby_args sortby @ fields_args properties))
           \<and> fst ` set (sortby_args sortby @ fields_args properties) \<subseteq> {''sortby''} \<union> {''fields''}"
    by (rule distinct_keys_append [OF distinct_sortby_args distinct_fields_args
          keys_sortby_args keys_fields_args]) simp
  have 2: "distinct (map fst (datetime_args datetime @ (sortby_args sortby @ fields_args properties)))
           \<and> fst ` set (datetime_args datetime @ (sortby_args sortby @ fields_args properties))
               \<subseteq> {''datetime''} \<union> ({''sortby''} \<union> {''fields''})"
    by (rule distinct_keys_append [OF distinct_datetime_args conjunct1 [OF 1]
          keys_datetime_args conjunct2 [OF 1]]) simp
  have 3: "distinct (map fst (fa @ (datetime_args datetime
                                  @ (sortby_args sortby @ fields_args properties))))
           \<and> fst ` set (fa @ (datetime_args datetime
                              @ (sortby_args sortby @ fields_args properties)))
               \<subseteq> {''filter'', ''filter-lang''} \<union> ({''datetime''} \<union> ({''sortby''} \<union> {''fields''}))"
    by (rule distinct_keys_append [OF distinct_filter_args [OF fa] conjunct1 [OF 2]
          keys_filter_args [OF fa] conjunct2 [OF 2]]) simp
  have 4: "distinct (map fst ([(''collections'', c), (''ids'', i), (''bbox'', bb),
                              (''limit'', l), (''token'', t), (''query'', q)]
                             @ (fa @ (datetime_args datetime
                                  @ (sortby_args sortby @ fields_args properties)))))"
    for c i bb l t q :: pyval
    by (rule conjunct1 [OF distinct_keys_append [OF _ conjunct1 [OF 3] _ conjunct2 [OF 3],
          where A = "{''collections'', ''ids'', ''bbox'', ''limit'', ''token'', ''query''}"]])
      simp_all
  show ?thesis unfolding base by (rule 4)
qed

lemma map_of_clean_args:
  "distinct (map fst d) \<Longrightarrow>
   map_of (clean_args d) k
     = (case map_of d k of
          None \<Rightarrow> None
        | Some v \<Rightarrow> if v \<noteq> PNone \<and> v \<noteq> PList [] then Some v else None)"
  by (simp add: clean_args_def map_of_filter_distinct split: option.splits)

section \<open>The datetime interval of GET /search\<close>







lemma get_search_request_exists:
  "get_search_datetime b datetime_filter = Inr datetime \<Longrightarrow> query_value b query = Inr qv \<Longrightarrow>
   filter_args b cql_filter = Inr fa \<Longrightarrow>
   \<exists>clean. get_search_request b collections_filter ids_filter bbox_filter datetime_filter
              properties cql_filter sortby query limit offset = Inr clean"
  by (simp add: get_search_request_def get_search_base_args_flat)



section \<open>The single-item handler\<close>

text \<open>
  Claim C3. Get-Single-Item: on a collection without identifying column the handler fails
  with NoPrimaryKey (the specification's MissingPrimaryKey), whatever the other
  parameters. Otherwise it calls the collection's feature search once, with an id filter
  holding exactly the requested item id: its result is a function of what the search
  returns for these arguments (and of \<open>url_for\<close>). If the search returns no item the
  handler fails with NotFound, and the message contains the item id and the collection id;
  if it returns at least one item the handler returns a response. An error of the search
  leaves the handler unchanged.
\<close>

theorem item_errors_and_delegation:
  "(id_column collection = None \<longrightarrow>
      item b request collection itemId bbox_only simplify properties output_type
        = Inl (NoPrimaryKey ''No primary key is set on this table''))
   \<and> kw_ids_filter (item_features_kwargs itemId bbox_only simplify properties
                       (resolve_output_type output_type)) = Some [itemId]
   \<and> (id_column collection \<noteq> None \<and> url_for b' = url_for b
        \<and> collection_features b' collection
              (item_features_kwargs itemId bbox_only simplify properties
                 (resolve_output_type output_type))
            = collection_features b collection
                (item_features_kwargs itemId bbox_only simplify properties
                   (resolve_output_type output_type)) \<longrightarrow>
      item b' request collection itemId bbox_only simplify properties output_type
        = item b request collection itemId bbox_only simplify properties output_type)
   \<and> (id_column collection \<noteq> None
        \<and> collection_features b collection
              (item_features_kwargs itemId bbox_only simplify properties
                 (resolve_output_type output_type)) = Inr item_list
        \<and> il_items item_list = [] \<longrightarrow>
      item b request collection itemId bbox_only simplify properties output_type
        = Inl (NotFound (''Item '' @ itemId @ '' in Collection '' @ coll_id collection
                         @ '' does not exist.'')))
   \<and> sublist itemId (''Item '' @ itemId @ '' in Collection '' @ coll_id collection
                       @ '' does not exist.'')
   \<and> sublist (coll_id collection) (''Item '' @ itemId @ '' in Collection ''
                                     @ coll_id collection @ '' does not exist.'')
   \<and> (id_column collection \<noteq> None
        \<and> collection_features b collection
              (item_features_kwargs itemId bbox_only simplify properties
                 (resolve_output_type output_type)) = Inr item_list
        \<and> il_items item_list \<noteq> [] \<longrightarrow>
      (\<exists>resp. item b request collection itemId bbox_only simplify properties output_type
                = Inr resp))
   \<and> (id_column collection \<noteq> None
        \<and> collection_features b collection
              (item_features_kwargs itemId bbox_only simplify properties
                 (resolve_output_type output_type)) = Inl err \<longrightarrow>
      item b request collection itemId bbox_only simplify properties output_type = Inl err)"
proof -
  have s1: "sublist itemId (''Item '' @ itemId @ '' in Collection '' @ coll_id collection
                            @ '' does not exist.'')"
    by (rule sublist_appendI)
  have "sublist (coll_id collection)
          ((''Item '' @ itemId @ '' in Collection '') @ coll_id collection
           @ '' does not exist.'')"
    by (rule sublist_appendI)
  then have s2: "sublist (coll_id collection) (''Item '' @ itemId @ '' in Collection ''
                                                @ coll_id collection @ '' does not exist.'')"
    by simp
  have found: "\<exists>resp. item b request collection itemId bbox_only simplify properties output_type
                       = Inr resp"
    if "id_column collection \<noteq> None"
      and "collection_features b collection
             (item_features_kwargs itemId bbox_only simplify properties
                (resolve_output_type output_type)) = Inr item_list"
      and "il_items item_list \<noteq> []"
    using that by (cases "il_items item_list") (simp_all add: item_def Let_def)
  have frame: "item b' request collection itemId bbox_only simplify properties output_type
                 = item b request collection itemId bbox_only simplify properties output_type"
    if "url_for b' = url_for b"
      and "collection_features b' collection
             (item_features_kwargs itemId bbox_only simplify properties
                (resolve_output_type output_type))
           = collection_features b collection
               (item_features_kwargs itemId bbox_only simplify properties
                  (resolve_output_type output_type))"
  proof (cases "collection_features b collection
                  (item_features_kwargs itemId bbox_only simplify properties
                     (resolve_output_type output_type))")
    case (Inl e)
    with that show ?thesis by (simp add: item_def Let_def)
  next
    case (Inr il)
    with that show ?thesis
      by (cases "il_items il") (simp_all add: item_def Let_def)
  qed
  show ?thesis
    using s1 s2 found frame
    by (auto simp: item_def Let_def item_features_kwargs_def)
qed

theorem item_errors_and_delegation_witness:
  "id_column (sample_collection\<lparr>id_column := None\<rparr>) = None
   \<and> item (sample_boundary (sample_item_list None None)) \<lparr>query_params = []\<rparr>
         (sample_collection\<lparr>id_column := None\<rparr>) ''item-1'' None None None None
       = Inl (NoPrimaryKey ''No primary key is set on this table'')
   \<and> id_column sample_collection \<noteq> None
   \<and> il_items ((sample_item_list None None)\<lparr>il_items := []\<rparr>) = []
   \<and> item (sample_boundary ((sample_item_list None None)\<lparr>il_items := []\<rparr>))
         \<lparr>query_params = []\<rparr> sample_collection ''item-9'' None None None None
       = Inl (NotFound ''Item item-9 in Collection landsat does not exist.'')
   \<and> il_items (sample_item_list None None) \<noteq> []
   \<and> item (sample_boundary (sample_item_list None None)) \<lparr>query_params = []\<rparr>
         sample_collection ''item-1'' None None None (Some json)
       = Inr (ORJSONResponse (Row (item_row sample_collection sample_feature)))
   \<and> item ((sample_boundary (sample_item_list None None))\<lparr>default_features_limit := 5\<rparr>)
         \<lparr>query_params = []\<rparr> sample_collection ''item-1'' None None None (Some json)
       = item (sample_boundary (sample_item_list None None)) \<lparr>query_params = []\<rparr>
           sample_collection ''item-1'' None None None (Some json)
   \<and> item ((sample_boundary (sample_item_list None None))
               \<lparr>collection_features := (\<lambda>collection kwargs. Inl (BoundaryError ''down''))\<rparr>)
         \<lparr>query_params = []\<rparr> sample_collection ''item-1'' None None None None
       = Inl (BoundaryError ''down'')"
proof -
  let ?b = "sample_boundary (sample_item_list None None)"
  let ?empty = "sample_boundary ((sample_item_list None None)\<lparr>il_items := []\<rparr>)"
  let ?rq = "\<lparr>query_params = []\<rparr>"
  have h: "id_column (sample_collection\<lparr>id_column := None\<rparr>) = None"
    "id_column sample_collection \<noteq> None"
    "il_items ((sample_item_list None None)\<lparr>il_items := []\<rparr>) = []"
    "il_items (sample_item_list None None) \<noteq> []"
    "coll_id sample_collection = ''landsat''"
    by (simp_all add: sample_collection_def sample_item_list_def)
  have f: "collection_features ?b c k = Inr (sample_item_list None None)"
    "collection_features ?empty c k = Inr ((sample_item_list None None)\<lparr>il_items := []\<rparr>)"
    "collection_features (?b\<lparr>default_features_limit := 5\<rparr>) c k
       = Inr (sample_item_list None None)"
    "url_for (?b\<lparr>default_features_limit := 5\<rparr>) = url_for ?b"
    "collection_features
       (?b\<lparr>collection_features := (\<lambda>collection kwargs. Inl (BoundaryError ''down''))\<rparr>) c k
       = Inl (BoundaryError ''down'')" for c k
    by (simp_all add: sample_boundary_def)
  have r: "item ?b ?rq sample_collection ''item-1'' None None None (Some json)
             = Inr (ORJSONResponse (Row (item_row sample_collection sample_feature)))"
  proof -
    have "il_items (sample_item_list None None) = [sample_feature]"
      by (simp add: sample_item_list_def)
    then show ?thesis
      by (simp add: item_def f h resolve_output_type_def row_output_def)
  qed
  show ?thesis
    using item_errors_and_delegation [of "sample_collection\<lparr>id_column := None\<rparr>" ?b ?rq
        "''item-1''" None None None None ?b "sample_item_list None None" "BoundaryError ''down''"]
      item_errors_and_delegation [of sample_collection ?empty ?rq "''item-9''" None None None None
        ?empty "(sample_item_list None None)\<lparr>il_items := []\<rparr>" "BoundaryError ''down''"]
      item_errors_and_delegation [of sample_collection ?b ?rq "''item-1''" None None None
        "Some json" "?b\<lparr>default_features_limit := 5\<rparr>" "sample_item_list None None"
        "BoundaryError ''down''"]
      item_errors_and_delegation [of sample_collection
        "?b\<lparr>collection_features := (\<lambda>collection kwargs. Inl (BoundaryError ''down''))\<rparr>"
        ?rq "''item-1''" None None None None ?b "sample_item_list None None"
        "BoundaryError ''down''"]
      h f r
    by simp
qed

section \<open>Flattened rows\<close>

lemma response_rows_rows_response:
  "row_output output_type \<Longrightarrow> response_rows (rows_response output_type rows) = Some rows"
  by (auto simp: row_output_def rows_response_def)

lemma response_links_rows_response: "response_links (rows_response output_type rows) = None"
  by (simp add: rows_response_def)

text \<open>A row built by a dict display and the filter \<open>v is not None\<close>.\<close>

lemma map_of_not_None_dict_of:
  "map_of (filter (\<lambda>kv. snd kv \<noteq> PNone) (dict_of kvs)) k
     = (case map_of (rev kvs) k of
          None \<Rightarrow> None
        | Some v \<Rightarrow> if v = PNone then None else Some v)"
  by (simp add: map_of_filter_distinct [OF distinct_dict_of] map_of_dict_of
      split: option.splits)

lemma distinct_not_None_dict_of:
  "distinct (map fst (filter (\<lambda>kv. snd kv \<noteq> PNone) (dict_of kvs)))"
  by (simp add: distinct_map_filter distinct_dict_of)

lemma items_row_geometry:
  "map_of (items_row collection f) ''geometry''
     = (if feature_geometry f = PNone then None else Some (feature_geometry f))"
  by (simp add: items_row_def map_of_not_None_dict_of)

lemma search_row_geometry:
  "map_of (search_row f) ''geometry''
     = (if feature_geometry f = PNone then None else Some (feature_geometry f))"
  by (simp add: search_row_def map_of_not_None_dict_of)

lemma items_items_rows:
  assumes "row_output (resolve_output_type output_type)"
    and "collection_features b collection
           (items_features_kwargs ids_filter bbox_filter datetime_filter properties cql_filter
              sortby query limit offset bbox_only simplify
              (geom_as_wkt_of (resolve_output_type output_type))) = Inr item_list"
  shows "items b request collection ids_filter bbox_filter datetime_filter properties
           cql_filter sortby query limit offset bbox_only simplify output_type
         = Inr (rows_response (resolve_output_type output_type)
                  (map (items_row collection) (il_items item_list)))"
  using assms by (simp add: items_def Let_def)

text \<open>
  Claim C7, amended. List-Items with CSV, flat-JSON or NDJSON output emits one row per
  feature of the envelope, in order. The row of a feature holds, under distinct keys, the
  last value given to each key by the sequence \<open>collectionId\<close>, \<open>itemId\<close>, the
  properties, \<open>geometry\<close>. A key whose value is absent (\<open>None\<close>) is dropped, so no row
  has a \<open>None\<close> value; every other value is kept, an empty string, an empty list and an
  empty mapping included. A feature without geometry gives a row without \<open>geometry\<close> key; a
  feature with geometry gives a row whose \<open>geometry\<close> is that geometry. The rows of GET
  /search are built the same way, with the feature's own collection as \<open>collectionId\<close>.
\<close>

theorem items_rows_flattened:
  "(row_output (resolve_output_type output_type)
    \<and> collection_features b collection
          (items_features_kwargs ids_filter bbox_filter datetime_filter properties cql_filter
             sortby query limit offset bbox_only simplify
             (geom_as_wkt_of (resolve_output_type output_type))) = Inr item_list \<longrightarrow>
      (\<exists>resp. items b request collection ids_filter bbox_filter datetime_filter properties
                 cql_filter sortby query limit offset bbox_only simplify output_type
               = Inr resp
             \<and> response_rows resp = Some (map (items_row collection) (il_items item_list))))
   \<and> distinct (map fst (items_row collection f))
   \<and> map_of (items_row collection f) k
       = (case map_of (rev ([(''collectionId'', PStr (coll_id collection)),
                             (''itemId'', feature_id f)]
                            @ feature_properties f
                            @ [(''geometry'', feature_geometry f)])) k of
            None \<Rightarrow> None
          | Some v \<Rightarrow> if v = PNone then None else Some v)
   \<and> (\<forall>kv \<in> set (items_row collection f). snd kv \<noteq> PNone)
   \<and> (map_of (rev ([(''collectionId'', PStr (coll_id collection)),
                     (''itemId'', feature_id f)]
                    @ feature_properties f
                    @ [(''geometry'', feature_geometry f)])) k = Some v
        \<and> v \<in> {PStr [], PList [], PDict []} \<longrightarrow>
        map_of (items_row collection f) k = Some v)
   \<and> (feature_geometry f = PNone \<longrightarrow> ''geometry'' \<notin> fst ` set (items_row collection f))
   \<and> (feature_geometry f \<noteq> PNone \<longrightarrow>
        map_of (items_row collection f) ''geometry'' = Some (feature_geometry f))
   \<and> (row_output (resolve_output_type output_type) \<longrightarrow>
        (\<exists>resp. search_response b request (resolve_output_type output_type) item_list = Inr resp
               \<and> response_rows resp = Some (map search_row (il_items item_list))))
   \<and> map_of (search_row f) k
       = (case map_of (rev ([(''collectionId'', feature_collection f),
                             (''itemId'', feature_id f)]
                            @ feature_properties f
                            @ [(''geometry'', feature_geometry f)])) k of
            None \<Rightarrow> None
          | Some v \<Rightarrow> if v = PNone then None else Some v)
   \<and> (feature_geometry f = PNone \<longrightarrow> ''geometry'' \<notin> fst ` set (search_row f))"
proof -
  have no_key: "''geometry'' \<notin> fst ` set row" if "map_of row ''geometry'' = None"
    for row :: "pyval dict"
    using that by (simp add: map_of_eq_None_iff)
  have g1: "feature_geometry f = PNone \<longrightarrow> ''geometry'' \<notin> fst ` set (items_row collection f)"
    using no_key [of "items_row collection f"] by (simp add: items_row_geometry)
  have g2: "feature_geometry f = PNone \<longrightarrow> ''geometry'' \<notin> fst ` set (search_row f)"
    using no_key [of "search_row f"] by (simp add: search_row_geometry)
  have rows: "\<exists>resp. items b request collection ids_filter bbox_filter datetime_filter
                       properties cql_filter sortby query limit offset bbox_only simplify
                       output_type = Inr resp
                   \<and> response_rows resp = Some (map (items_row collection) (il_items item_list))"
    if "row_output (resolve_output_type output_type)"
      and "collection_features b collection
             (items_features_kwargs ids_filter bbox_filter datetime_filter properties
                cql_filter sortby query limit offset bbox_only simplify
                (geom_as_wkt_of (resolve_output_type output_type))) = Inr item_list"
    using items_items_rows [OF that] response_rows_rows_response [OF that(1)] by simp
  have srows: "\<exists>resp. search_response b request (resolve_output_type output_type) item_list
                         = Inr resp
                    \<and> response_rows resp = Some (map search_row (il_items item_list))"
    if "row_output (resolve_output_type output_type)"
    using that response_rows_rows_response [OF that] by (simp add: search_response_def)
  have m1: "map_of (items_row collection f) k
       = (case map_of (rev ([(''collectionId'', PStr (coll_id collection)),
                             (''itemId'', feature_id f)]
                            @ feature_properties f
                            @ [(''geometry'', feature_geometry f)])) k of
            None \<Rightarrow> None
          | Some v \<Rightarrow> if v = PNone then None else Some v)"
    unfolding items_row_def by (rule map_of_not_None_dict_of)
  have m2: "map_of (search_row f) k
       = (case map_of (rev ([(''collectionId'', feature_collection f),
                             (''itemId'', feature_id f)]
                            @ feature_properties f
                            @ [(''geometry'', feature_geometry f)])) k of
            None \<Rightarrow> None
          | Some v \<Rightarrow> if v = PNone then None else Some v)"
    unfolding search_row_def by (rule map_of_not_None_dict_of)
  have keep: "map_of (rev ([(''collectionId'', PStr (coll_id collection)),
                     (''itemId'', feature_id f)]
                    @ feature_properties f
                    @ [(''geometry'', feature_geometry f)])) k = Some v
        \<and> v \<in> {PStr [], PList [], PDict []} \<longrightarrow>
        map_of (items_row collection f) k = Some v"
    unfolding m1 by auto
  have d: "distinct (map fst (items_row collection f))"
    unfolding items_row_def by (rule distinct_not_None_dict_of)
  have nn: "\<forall>kv \<in> set (items_row collection f). snd kv \<noteq> PNone"
    by (simp add: items_row_def)
  have g3: "feature_geometry f \<noteq> PNone \<longrightarrow>
        map_of (items_row collection f) ''geometry'' = Some (feature_geometry f)"
    by (simp add: items_row_geometry)
  show ?thesis
    using rows srows d m1 m2 nn keep g1 g2 g3 by blast
qed

theorem items_rows_flattened_witness:
  "row_output (resolve_output_type (Some csv))
   \<and> items (sample_boundary (sample_item_list None None)) \<lparr>query_params = []\<rparr>
         sample_collection None None None None None None None 10 None None None (Some csv)
       = Inr (StreamingResponse
                (Rows [[(''collectionId'', PStr ''landsat''), (''itemId'', PStr ''item-1''),
                        (''datetime'', PStr ''2024-01-01T00:00:00Z''),
                        (''geometry'', PStr ''POINT(1 2)'')]])
                csv ''attachment;filename=items.csv'')
   \<and> feature_geometry (sample_feature\<lparr>feature_geometry := PNone\<rparr>) = PNone
   \<and> items_row sample_collection (sample_feature\<lparr>feature_geometry := PNone\<rparr>)
       = [(''collectionId'', PStr ''landsat''), (''itemId'', PStr ''item-1''),
          (''datetime'', PStr ''2024-01-01T00:00:00Z'')]
   \<and> ''geometry'' \<notin> fst ` set (items_row sample_collection
                                     (sample_feature\<lparr>feature_geometry := PNone\<rparr>))
   \<and> feature_geometry sample_feature \<noteq> PNone
   \<and> map_of (items_row sample_collection sample_feature) ''geometry''
       = Some (PStr ''POINT(1 2)'')
   \<and> ''geometry'' \<notin> fst ` set (search_row (sample_feature\<lparr>feature_geometry := PNone\<rparr>))
   \<and> map_of (items_row sample_collection
               (sample_feature\<lparr>feature_properties := [(''note'', PStr [])]\<rparr>)) ''note''
       = Some (PStr [])"
proof -
  let ?b = "sample_boundary (sample_item_list None None)"
  let ?g = "sample_feature\<lparr>feature_geometry := PNone\<rparr>"
  let ?n = "sample_feature\<lparr>feature_properties := [(''note'', PStr [])]\<rparr>"
  have ro: "row_output (resolve_output_type (Some csv))"
    by (simp add: row_output_def resolve_output_type_def)
  have cf: "collection_features ?b c k = Inr (sample_item_list None None)" for c k
    by (simp add: sample_boundary_def)
  have r1: "items_row sample_collection sample_feature
        = [(''collectionId'', PStr ''landsat''), (''itemId'', PStr ''item-1''),
           (''datetime'', PStr ''2024-01-01T00:00:00Z''), (''geometry'', PStr ''POINT(1 2)'')]"
    by (simp add: items_row_def sample_collection_def sample_feature_def dict_of_def)
  have r2: "items_row sample_collection ?g
        = [(''collectionId'', PStr ''landsat''), (''itemId'', PStr ''item-1''),
           (''datetime'', PStr ''2024-01-01T00:00:00Z'')]"
    by (simp add: items_row_def sample_collection_def sample_feature_def dict_of_def)
  have g: "feature_geometry ?g = PNone" "feature_geometry sample_feature \<noteq> PNone"
    by (simp_all add: sample_feature_def)
  have n: "feature_properties ?n = [(''note'', PStr [])]"
    by simp
  have its: "il_items (sample_item_list None None) = [sample_feature]"
    by (simp add: sample_item_list_def)
  have resp: "items ?b \<lparr>query_params = []\<rparr> sample_collection None None None None None None
                None 10 None None None (Some csv)
              = Inr (rows_response csv [items_row sample_collection sample_feature])"
    using ro by (simp add: items_def cf its resolve_output_type_def)
  show ?thesis
    using items_rows_flattened [of "Some csv" ?b sample_collection None None None None None
        None None 10 None None None "sample_item_list None None" "\<lparr>query_params = []\<rparr>"
        ?g "''geometry''" PNone]
      items_rows_flattened [of "Some csv" ?b sample_collection None None None None None
        None None 10 None None None "sample_item_list None None" "\<lparr>query_params = []\<rparr>"
        sample_feature "''geometry''" PNone]
      items_rows_flattened [of "Some csv" ?b sample_collection None None None None None
        None None 10 None None None "sample_item_list None None" "\<lparr>query_params = []\<rparr>"
        ?n "''note''" "PStr []"]
      ro cf r1 r2 g n resp
    by (simp add: rows_response_def)
qed

text \<open>
  The claim as written has every absent or empty value dropped. The comprehension keeps
  what is not \<open>None\<close>: a feature whose properties hold an empty string, an empty list and
  an empty mapping gives a row that holds all three, in List-Items and in GET /search
  alike. Only the absent geometry is dropped.
\<close>

theorem items_rows_empty_values_counterexample:
  "items
     (sample_boundary
        \<lparr> il_items = [sample_feature
                        \<lparr> feature_properties :=
                            [(''note'', PStr []), (''tags'', PList []), (''extra'', PDict [])],
                          feature_geometry := PNone \<rparr>],
          il_matched = Some 1, il_next = None, il_prev = None \<rparr>)
     \<lparr>query_params = []\<rparr> sample_collection None None None None None None None 10 None None
     None (Some json)
     = Inr (ORJSONResponse
              (Rows [[(''collectionId'', PStr ''landsat''), (''itemId'', PStr ''item-1''),
                      (''note'', PStr []), (''tags'', PList []), (''extra'', PDict [])]]))
   \<and> search_row
         (sample_feature
            \<lparr> feature_properties :=
                [(''note'', PStr []), (''tags'', PList []), (''extra'', PDict [])],
              feature_geometry := PNone \<rparr>)
       = [(''collectionId'', PStr ''landsat''), (''itemId'', PStr ''item-1''),
          (''note'', PStr []), (''tags'', PList []), (''extra'', PDict [])]"
  by (simp add: items_def sample_boundary_def resolve_output_type_def row_output_def
      rows_response_def items_row_def search_row_def sample_collection_def sample_feature_def
      dict_of_def)

section \<open>The row of the single-item handler\<close>

lemma item_row_geometry:
  "feature_geometry f \<noteq> PNone \<Longrightarrow>
   map_of (item_row collection f) ''geometry'' = Some (PTuple [feature_geometry f])"
  by (simp add: item_row_def map_of_dict_set)

text \<open>
  Claim C8. A successful Get-Single-Item request (the collection has an identifying
  column and the feature search returns at least one item) with CSV, JSON or NDJSON
  output emits exactly one row, the row of the first item returned. When that feature has
  a geometry, the row's \<open>geometry\<close> is the one-element tuple holding it, where the row of
  the list handler holds the geometry itself.
\<close>

theorem item_single_row:
  "(id_column collection \<noteq> None
    \<and> row_output (resolve_output_type output_type)
    \<and> collection_features b collection
          (item_features_kwargs itemId bbox_only simplify properties
             (resolve_output_type output_type)) = Inr item_list
    \<and> il_items item_list \<noteq> [] \<longrightarrow>
      (\<exists>resp. item b request collection itemId bbox_only simplify properties output_type
                = Inr resp
             \<and> response_rows resp = Some [item_row collection (hd (il_items item_list))]))
   \<and> (feature_geometry f \<noteq> PNone \<longrightarrow>
        map_of (item_row collection f) ''geometry'' = Some (PTuple [feature_geometry f])
        \<and> map_of (items_row collection f) ''geometry'' = Some (feature_geometry f))"
proof -
  have one: "\<exists>resp. item b request collection itemId bbox_only simplify properties output_type
                     = Inr resp
                  \<and> response_rows resp = Some [item_row collection (hd (il_items item_list))]"
    if "id_column collection \<noteq> None" and "row_output (resolve_output_type output_type)"
      and "collection_features b collection
             (item_features_kwargs itemId bbox_only simplify properties
                (resolve_output_type output_type)) = Inr item_list"
      and "il_items item_list \<noteq> []"
    using that by (cases "il_items item_list") (auto simp: item_def Let_def row_output_def)
  show ?thesis
    using one item_row_geometry [of f collection] items_row_geometry [of collection f]
    by simp
qed

theorem item_single_row_witness:
  "id_column sample_collection \<noteq> None
   \<and> row_output (resolve_output_type (Some ndjson))
   \<and> il_items (sample_item_list None None) \<noteq> []
   \<and> item (sample_boundary (sample_item_list None None)) \<lparr>query_params = []\<rparr>
         sample_collection ''item-1'' None None None (Some ndjson)
       = Inr (StreamingResponse
                (Rows [[(''collectionId'', PStr ''landsat''), (''itemId'', PStr ''item-1''),
                        (''datetime'', PStr ''2024-01-01T00:00:00Z''), (''cloud'', PNone),
                        (''geometry'', PTuple [PStr ''POINT(1 2)''])]])
                ndjson ''attachment;filename=items.ndjson'')
   \<and> feature_geometry sample_feature \<noteq> PNone
   \<and> map_of (item_row sample_collection sample_feature) ''geometry''
       = Some (PTuple [PStr ''POINT(1 2)''])
   \<and> map_of (items_row sample_collection sample_feature) ''geometry''
       = Some (PStr ''POINT(1 2)'')"
proof -
  let ?b = "sample_boundary (sample_item_list None None)"
  have h: "id_column sample_collection \<noteq> None"
    "row_output (resolve_output_type (Some ndjson))"
    "il_items (sample_item_list None None) = [sample_feature]"
    "feature_geometry sample_feature = PStr ''POINT(1 2)''"
    by (simp_all add: sample_collection_def row_output_def resolve_output_type_def
        sample_item_list_def sample_feature_def)
  have cf: "collection_features ?b c k = Inr (sample_item_list None None)" for c k
    by (simp add: sample_boundary_def)
  have row: "item_row sample_collection sample_feature
        = [(''collectionId'', PStr ''landsat''), (''itemId'', PStr ''item-1''),
           (''datetime'', PStr ''2024-01-01T00:00:00Z''), (''cloud'', PNone),
           (''geometry'', PTuple [PStr ''POINT(1 2)''])]"
    by (simp add: item_row_def sample_collection_def sample_feature_def dict_of_def)
  have resp: "item ?b \<lparr>query_params = []\<rparr> sample_collection ''item-1'' None None None
                (Some ndjson)
              = Inr (StreamingResponse (Rows [item_row sample_collection sample_feature])
                       ndjson ''attachment;filename=items.ndjson'')"
    using h(1) by (simp add: item_def cf h(3) resolve_output_type_def row_output_def)
  show ?thesis
    using item_single_row [of sample_collection "Some ndjson" ?b "''item-1''" None None None
        "sample_item_list None None" "\<lparr>query_params = []\<rparr>" sample_feature]
      h cf row resp
    by simp
qed

section \<open>The assembled search request\<close>

lemma map_of_filter_args_other:
  "filter_args b cql_filter = Inr fa \<Longrightarrow> k \<noteq> ''filter'' \<Longrightarrow> k \<noteq> ''filter-lang'' \<Longrightarrow>
   map_of fa k = None"
  using keys_filter_args [of b cql_filter fa] by (auto simp: map_of_eq_None_iff)

text \<open>The request \<open>clean\<close> in terms of the parts of \<open>base_args\<close>.\<close>

lemma get_search_request_parts:
  assumes "get_search_request b collections_filter ids_filter bbox_filter datetime_filter
             properties cql_filter sortby query limit offset = Inr clean"
  obtains datetime qv fa base_args where
    "get_search_datetime b datetime_filter = Inr datetime"
    "query_value b query = Inr qv"
    "filter_args b cql_filter = Inr fa"
    "base_args =
        [(''collections'', opt_list PStr collections_filter),
         (''ids'', opt_list PStr ids_filter),
         (''bbox'', opt_list PFloat bbox_filter),
         (''limit'', PInt (if limit \<noteq> 0 then limit else default_features_limit b)),
         (''token'', opt_str offset),
         (''query'', qv)]
        @ fa @ datetime_args datetime @ sortby_args sortby @ fields_args properties"
    "distinct (map fst base_args)"
    "clean = clean_args base_args"
proof -
  obtain datetime base_args where dt: "get_search_datetime b datetime_filter = Inr datetime"
    and base: "get_search_base_args b collections_filter ids_filter bbox_filter datetime
                 properties cql_filter sortby query limit offset = Inr base_args"
    and clean: "clean = clean_args base_args"
    using assms by (auto simp: get_search_request_def and_then_eq_Inr)
  obtain qv fa where "query_value b query = Inr qv" "filter_args b cql_filter = Inr fa"
    "base_args =
        [(''collections'', opt_list PStr collections_filter),
         (''ids'', opt_list PStr ids_filter),
         (''bbox'', opt_list PFloat bbox_filter),
         (''limit'', PInt (if limit \<noteq> 0 then limit else default_features_limit b)),
         (''token'', opt_str offset),
         (''query'', qv)]
        @ fa @ datetime_args datetime @ sortby_args sortby @ fields_args properties"
    using base unfolding get_search_base_args_flat and_then_eq_Inr by auto
  then show ?thesis
    using that dt clean distinct_base_args [OF base] by blast
qed

lemma clean_args_values: "\<forall>kv \<in> set (clean_args d). snd kv \<noteq> PNone \<and> snd kv \<noteq> PList []"
  by (simp add: clean_args_def)

text \<open>\<open>kept v\<close>: what \<open>clean\<close> holds for an entry of \<open>base_args\<close> with value \<open>v\<close>.\<close>

lemma get_search_request_entries:
  assumes "get_search_request b collections_filter ids_filter bbox_filter datetime_filter
             properties cql_filter sortby query limit offset = Inr clean"
  shows "map_of clean ''limit''
           = Some (PInt (if limit = 0 then default_features_limit b else limit))"
    and "map_of clean ''fields''
           = (case properties of
                None \<Rightarrow> None
              | Some ps \<Rightarrow>
                  if ps = [] then None
                  else Some (PDict [(''include'', PSet (set ps)), (''exclude'', PSet {})]))"
    and "\<exists>qv. query_value b query = Inr qv
              \<and> map_of clean ''query'' = (if qv = PNone \<or> qv = PList [] then None else Some qv)"
    and "map_of clean ''collections''
           = (case collections_filter of
                None \<Rightarrow> None
              | Some cs \<Rightarrow> if cs = [] then None else Some (PList (map PStr cs)))"
    and "map_of clean ''ids''
           = (case ids_filter of
                None \<Rightarrow> None
              | Some is \<Rightarrow> if is = [] then None else Some (PList (map PStr is)))"
    and "map_of clean ''bbox''
           = (case bbox_filter of
                None \<Rightarrow> None
              | Some bs \<Rightarrow> if bs = [] then None else Some (PList (map PFloat bs)))"
    and "map_of clean ''token'' = (case offset of None \<Rightarrow> None | Some t \<Rightarrow> Some (PStr t))"
    and "map_of clean ''sortby''
           = (case sortby of
                None \<Rightarrow> None
              | Some s \<Rightarrow>
                  if s = [] \<or> get_search_sortby s = [] then None
                  else Some (PList (get_search_sortby s)))"
proof -
  from assms obtain datetime qv fa base_args where
    qv: "query_value b query = Inr qv"
    and fa: "filter_args b cql_filter = Inr fa"
    and base: "base_args =
        [(''collections'', opt_list PStr collections_filter),
         (''ids'', opt_list PStr ids_filter),
         (''bbox'', opt_list PFloat bbox_filter),
         (''limit'', PInt (if limit \<noteq> 0 then limit else default_features_limit b)),
         (''token'', opt_str offset),
         (''query'', qv)]
        @ fa @ datetime_args datetime @ sortby_args sortby @ fields_args properties"
    and dist: "distinct (map fst base_args)"
    and clean: "clean = clean_args base_args"
    by (rule get_search_request_parts)
  note fa_none = map_of_filter_args_other [OF fa]
  note look = map_of_datetime_args map_of_sortby_args map_of_fields_args map_add_def fa_none
  have cl: "map_of clean k
              = (case map_of base_args k of
                   None \<Rightarrow> None
                 | Some v \<Rightarrow> if v \<noteq> PNone \<and> v \<noteq> PList [] then Some v else None)" for k
    unfolding clean by (rule map_of_clean_args [OF dist])
  have "map_of base_args ''limit''
          = Some (PInt (if limit = 0 then default_features_limit b else limit))"
    unfolding base by (simp add: look split: option.splits)
  then show "map_of clean ''limit''
          = Some (PInt (if limit = 0 then default_features_limit b else limit))"
    by (simp add: cl)
  have "map_of base_args ''fields'' = map_of (fields_args properties) ''fields''"
    unfolding base by (simp add: look split: option.splits)
  then show "map_of clean ''fields''
           = (case properties of
                None \<Rightarrow> None
              | Some ps \<Rightarrow>
                  if ps = [] then None
                  else Some (PDict [(''include'', PSet (set ps)), (''exclude'', PSet {})]))"
    by (simp add: cl map_of_fields_args split: option.splits)
  have "map_of base_args ''query'' = Some qv"
    unfolding base by (simp add: look split: option.splits)
  then have "map_of clean ''query'' = (if qv = PNone \<or> qv = PList [] then None else Some qv)"
    by (simp add: cl)
  with qv show "\<exists>qv. query_value b query = Inr qv
              \<and> map_of clean ''query'' = (if qv = PNone \<or> qv = PList [] then None else Some qv)"
    by blast
  have "map_of base_args ''collections'' = Some (opt_list PStr collections_filter)"
    unfolding base by (simp add: look split: option.splits)
  then show "map_of clean ''collections''
           = (case collections_filter of
                None \<Rightarrow> None
              | Some cs \<Rightarrow> if cs = [] then None else Some (PList (map PStr cs)))"
    by (simp add: cl opt_list_def split: option.splits)
  have "map_of base_args ''ids'' = Some (opt_list PStr ids_filter)"
    unfolding base by (simp add: look split: option.splits)
  then show "map_of clean ''ids''
           = (case ids_filter of
                None \<Rightarrow> None
              | Some is \<Rightarrow> if is = [] then None else Some (PList (map PStr is)))"
    by (simp add: cl opt_list_def split: option.splits)
  have "map_of base_args ''bbox'' = Some (opt_list PFloat bbox_filter)"
    unfolding base by (simp add: look split: option.splits)
  then show "map_of clean ''bbox''
           = (case bbox_filter of
                None \<Rightarrow> None
              | Some bs \<Rightarrow> if bs = [] then None else Some (PList (map PFloat bs)))"
    by (simp add: cl opt_list_def split: option.splits)
  have "map_of base_args ''token'' = Some (opt_str offset)"
    unfolding base by (simp add: look split: option.splits)
  then show "map_of clean ''token'' = (case offset of None \<Rightarrow> None | Some t \<Rightarrow> Some (PStr t))"
    by (simp add: cl opt_str_def split: option.splits)
  have "map_of base_args ''sortby'' = map_of (sortby_args sortby) ''sortby''"
    unfolding base by (simp add: look split: option.splits)
  then show "map_of clean ''sortby''
           = (case sortby of
                None \<Rightarrow> None
              | Some s \<Rightarrow>
                  if s = [] \<or> get_search_sortby s = [] then None
                  else Some (PList (get_search_sortby s)))"
    by (simp add: cl map_of_sortby_args split: option.splits)
qed

text \<open>
  Claim C6, amended. The search request assembled by GET /search satisfies: \<open>limit\<close> is
  the default features limit when the supplied limit is 0 and the supplied limit
  otherwise; a non-empty list of property names becomes \<open>fields\<close> with these names as
  include set and an empty exclude set, and without property names there is no
  \<open>fields\<close>; a non-empty free-text query is URL-decoded and then parsed as JSON, and the
  parsed value is the \<open>query\<close> entry (unless it is \<open>None\<close> or an empty list), while an
  empty query string is passed on as it is, not parsed; the request is \<open>base_args\<close>
  without the entries whose value is \<open>None\<close> or an empty list, so it holds no such value.
  The request is assembled whenever the datetime block, the parsing of the query and
  the serialisation of the filter succeed.
\<close>

theorem get_search_request_fields:
  "(get_search_request b collections_filter ids_filter bbox_filter datetime_filter properties
      cql_filter sortby query limit offset = Inr clean \<longrightarrow>
      map_of clean ''limit''
        = Some (PInt (if limit = 0 then default_features_limit b else limit))
      \<and> (\<forall>ps. properties = Some ps \<and> ps \<noteq> [] \<longrightarrow>
            map_of clean ''fields''
              = Some (PDict [(''include'', PSet (set ps)), (''exclude'', PSet {})]))
      \<and> (properties = None \<or> properties = Some [] \<longrightarrow> map_of clean ''fields'' = None)
      \<and> (\<forall>q. query = Some q \<and> q \<noteq> [] \<longrightarrow>
            (\<exists>v. json_loads b (unquote_plus b q) = Inr v
                 \<and> map_of clean ''query''
                     = (if v = PNone \<or> v = PList [] then None else Some v)))
      \<and> (query = Some [] \<longrightarrow> map_of clean ''query'' = Some (PStr []))
      \<and> (query = None \<longrightarrow> map_of clean ''query'' = None)
      \<and> (\<forall>kv \<in> set clean. snd kv \<noteq> PNone \<and> snd kv \<noteq> PList [])
      \<and> (\<exists>datetime base_args.
            get_search_base_args b collections_filter ids_filter bbox_filter datetime
              properties cql_filter sortby query limit offset = Inr base_args
            \<and> distinct (map fst base_args)
            \<and> clean = filter (\<lambda>kv. snd kv \<noteq> PNone \<and> snd kv \<noteq> PList []) base_args))
   \<and> (get_search_datetime b datetime_filter = Inr datetime
        \<and> query_value b query = Inr qv \<and> filter_args b cql_filter = Inr fa \<longrightarrow>
       (\<exists>clean. get_search_request b collections_filter ids_filter bbox_filter
                   datetime_filter properties cql_filter sortby query limit offset
                 = Inr clean))"
proof -
  have part1:
    "map_of clean ''limit''
        = Some (PInt (if limit = 0 then default_features_limit b else limit))
      \<and> (\<forall>ps. properties = Some ps \<and> ps \<noteq> [] \<longrightarrow>
            map_of clean ''fields''
              = Some (PDict [(''include'', PSet (set ps)), (''exclude'', PSet {})]))
      \<and> (properties = None \<or> properties = Some [] \<longrightarrow> map_of clean ''fields'' = None)
      \<and> (\<forall>q. query = Some q \<and> q \<noteq> [] \<longrightarrow>
            (\<exists>v. json_loads b (unquote_plus b q) = Inr v
                 \<and> map_of clean ''query''
                     = (if v = PNone \<or> v = PList [] then None else Some v)))
      \<and> (query = Some [] \<longrightarrow> map_of clean ''query'' = Some (PStr []))
      \<and> (query = None \<longrightarrow> map_of clean ''query'' = None)
      \<and> (\<forall>kv \<in> set clean. snd kv \<noteq> PNone \<and> snd kv \<noteq> PList [])
      \<and> (\<exists>datetime base_args.
            get_search_base_args b collections_filter ids_filter bbox_filter datetime
              properties cql_filter sortby query limit offset = Inr base_args
            \<and> distinct (map fst base_args)
            \<and> clean = filter (\<lambda>kv. snd kv \<noteq> PNone \<and> snd kv \<noteq> PList []) base_args)"
    if req: "get_search_request b collections_filter ids_filter bbox_filter datetime_filter
               properties cql_filter sortby query limit offset = Inr clean"
  proof -
    note e = get_search_request_entries [OF req]
    obtain v where v: "query_value b query = Inr v"
      and qe: "map_of clean ''query'' = (if v = PNone \<or> v = PList [] then None else Some v)"
      using e(3) by blast
    have q1: "\<exists>v. json_loads b (unquote_plus b q) = Inr v
                 \<and> map_of clean ''query'' = (if v = PNone \<or> v = PList [] then None else Some v)"
      if "query = Some q" "q \<noteq> []" for q
      using v qe that by (simp add: query_value_def)
    have q2: "map_of clean ''query'' = Some (PStr [])" if "query = Some []"
      using v qe that by (auto simp: query_value_def)
    have q3: "map_of clean ''query'' = None" if "query = None"
      using v qe that by (auto simp: query_value_def)
    obtain datetime base_args where
      base: "get_search_base_args b collections_filter ids_filter bbox_filter datetime
               properties cql_filter sortby query limit offset = Inr base_args"
      and clean: "clean = clean_args base_args"
      using req by (auto simp: get_search_request_def and_then_eq_Inr)
    have ex: "\<exists>datetime base_args.
            get_search_base_args b collections_filter ids_filter bbox_filter datetime
              properties cql_filter sortby query limit offset = Inr base_args
            \<and> distinct (map fst base_args)
            \<and> clean = filter (\<lambda>kv. snd kv \<noteq> PNone \<and> snd kv \<noteq> PList []) base_args"
      using base clean distinct_base_args [OF base] unfolding clean_args_def by blast
    have vals: "\<forall>kv \<in> set clean. snd kv \<noteq> PNone \<and> snd kv \<noteq> PList []"
      unfolding clean by (rule clean_args_values)
    have f1: "map_of clean ''fields''
                = Some (PDict [(''include'', PSet (set ps)), (''exclude'', PSet {})])"
      if "properties = Some ps" "ps \<noteq> []" for ps
      using e(2) that by simp
    have f2: "map_of clean ''fields'' = None" if "properties = None \<or> properties = Some []"
      using e(2) that by auto
    show ?thesis
      using e(1) f1 f2 q1 q2 q3 vals ex by blast
  qed
  have part2: "\<exists>clean. get_search_request b collections_filter ids_filter bbox_filter
                   datetime_filter properties cql_filter sortby query limit offset
                 = Inr clean"
    if "get_search_datetime b datetime_filter = Inr datetime"
      and "query_value b query = Inr qv" and "filter_args b cql_filter = Inr fa"
    using that by (simp add: get_search_request_def get_search_base_args_flat)
  show ?thesis using part1 part2 by blast
qed

theorem get_search_request_fields_witness:
  "get_search_request (sample_boundary (sample_item_list None None)) None None None None
     (Some [''foo'', ''bar'']) None None (Some ''{}'') 0 None
     = Inr [(''limit'', PInt 10), (''query'', PDict []),
            (''fields'', PDict [(''include'', PSet {''foo'', ''bar''}),
                                (''exclude'', PSet {})])]
   \<and> json_loads (sample_boundary (sample_item_list None None))
         (unquote_plus (sample_boundary (sample_item_list None None)) ''{}'') = Inr (PDict [])
   \<and> map_of [(''limit'', PInt 10), (''query'', PDict []),
              (''fields'', PDict [(''include'', PSet {''foo'', ''bar''}),
                                  (''exclude'', PSet {})])] ''fields''
       = Some (PDict [(''include'', PSet (set [''foo'', ''bar''])), (''exclude'', PSet {})])
   \<and> map_of [(''limit'', PInt 10), (''query'', PDict []),
              (''fields'', PDict [(''include'', PSet {''foo'', ''bar''}),
                                  (''exclude'', PSet {})])] ''limit''
       = Some (PInt (default_features_limit (sample_boundary (sample_item_list None None))))
   \<and> get_search_request (sample_boundary (sample_item_list None None)) None (Some []) None
         None None None None None 25 (Some ''tok'')
       = Inr [(''limit'', PInt 25), (''token'', PStr ''tok'')]"
proof -
  let ?b = "sample_boundary (sample_item_list None None)"
  have b: "json_loads ?b (unquote_plus ?b ''{}'') = Inr (PDict [])"
    "default_features_limit ?b = 10"
    by (simp_all add: sample_boundary_def)
  have r1: "get_search_request ?b None None None None (Some [''foo'', ''bar'']) None None
              (Some ''{}'') 0 None
            = Inr [(''limit'', PInt 10), (''query'', PDict []),
                   (''fields'', PDict [(''include'', PSet {''foo'', ''bar''}),
                                       (''exclude'', PSet {})])]"
    by (simp add: get_search_request_def get_search_datetime_def get_search_base_args_flat
        query_value_def filter_args_def datetime_args_def sortby_args_def fields_args_def
        opt_list_def opt_str_def clean_args_def b)
  have r2: "get_search_request ?b None (Some []) None None None None None None 25
              (Some ''tok'')
            = Inr [(''limit'', PInt 25), (''token'', PStr ''tok'')]"
    by (simp add: get_search_request_def get_search_datetime_def get_search_base_args_flat
        query_value_def filter_args_def datetime_args_def sortby_args_def fields_args_def
        opt_list_def opt_str_def clean_args_def b)
  show ?thesis
    using get_search_request_fields [of ?b None None None None "Some [''foo'', ''bar'']" None
        None "Some ''{}''" 0 None
        "[(''limit'', PInt 10), (''query'', PDict []),
          (''fields'', PDict [(''include'', PSet {''foo'', ''bar''}), (''exclude'', PSet {})])]"
        None "PDict []" "[]"]
      r1 r2 b
    by simp
qed

text \<open>
  The claim as written has every present query decoded and parsed. An empty query
  string (\<open>?query=\<close>) is present and falsy: it is neither decoded nor parsed, and it is
  not omitted either, being neither \<open>None\<close> nor an empty list. The assembled request
  holds the raw empty string, which is not the result of parsing it.
\<close>

theorem get_search_request_query_counterexample:
  "get_search_request (sample_boundary (sample_item_list None None)) None None None None None
     None None (Some []) 10 None
     = Inr [(''limit'', PInt 10), (''query'', PStr [])]
   \<and> json_loads (sample_boundary (sample_item_list None None))
         (unquote_plus (sample_boundary (sample_item_list None None)) [])
       = Inl (BoundaryError ''JSONDecodeError'')"
  by (simp add: get_search_request_def get_search_datetime_def get_search_base_args_flat
      query_value_def filter_args_def datetime_args_def sortby_args_def fields_args_def
      opt_list_def opt_str_def clean_args_def sample_boundary_def)

section \<open>Query parameters\<close>

lemma distinct_qp_dict: "distinct (map fst (qp_dict qp))"
  by (simp add: qp_dict_def distinct_dict_of)

lemma map_of_qp_dict: "map_of (qp_dict qp) = map_of (rev qp)"
  by (simp add: qp_dict_def map_of_dict_of)

lemma keys_qp_dict: "fst ` set (qp_dict qp) = fst ` set qp"
  by (simp add: qp_dict_def keys_dict_of)

lemma qp_dict_distinct: "distinct (map fst qp) \<Longrightarrow> qp_dict qp = qp"
  by (simp add: qp_dict_def dict_of_distinct)

lemma dict_contains_qp_dict: "dict_contains (qp_dict qp) k \<longleftrightarrow> k \<in> fst ` set qp"
  by (simp add: dict_contains_def keys_qp_dict)

text \<open>The order of the keys: first occurrences.\<close>

lemma remdups_snoc: "remdups (xs @ [k]) = filter (\<lambda>x. x \<noteq> k) (remdups xs) @ [k]"
  by (induction xs) auto

lemma first_occurrences_Cons:
  "rev (remdups (rev (k # ks))) = k # filter (\<lambda>x. x \<noteq> k) (rev (remdups (rev ks)))"
  by (simp add: remdups_snoc rev_filter)

lemma keys_order_dict_set:
  "map fst (dict_set d k v) = (if k \<in> fst ` set d then map fst d else map fst d @ [k])"
  by (induction d) (auto simp: rev_image_eqI)

lemma keys_order_dict_update:
  "map fst (dict_update d kvs)
     = map fst d @ filter (\<lambda>k. k \<notin> fst ` set d) (rev (remdups (rev (map fst kvs))))"
proof (induction d kvs rule: dict_update.induct)
  case (1 d)
  then show ?case by simp
next
  case (2 d k v kvs)
  have "filter (\<lambda>x. x \<notin> fst ` set d) (filter (\<lambda>x. x \<noteq> k) xs) = filter (\<lambda>x. x \<notin> fst ` set d) xs"
    if "k \<in> fst ` set d" for xs :: "string list"
    using that by (induction xs) auto
  moreover have "filter (\<lambda>x. x \<notin> insert k (fst ` set d)) xs
                   = filter (\<lambda>x. x \<notin> fst ` set d) (filter (\<lambda>x. x \<noteq> k) xs)"
    for xs :: "string list"
    by (induction xs) auto
  ultimately show ?case
    using 2 by (simp add: keys_order_dict_set keys_dict_set first_occurrences_Cons
        del: remdups.simps rev.simps)
qed

lemma keys_order_qp_dict: "map fst (qp_dict qp) = rev (remdups (rev (map fst qp)))"
  by (simp add: qp_dict_def dict_of_def keys_order_dict_update)

section \<open>Setting and re-adding the offset\<close>

lemma dict_set_offset_set:
  "distinct (map fst d) \<Longrightarrow> dict_set d ''offset'' t = offset_set d t"
proof (induction d)
  case Nil
  then show ?case by (simp add: offset_set_def)
next
  case (Cons a d)
  show ?case
  proof (cases "fst a = ''offset''")
    case True
    then have "''offset'' \<notin> fst ` set d" using Cons.prems by auto
    then have "map (\<lambda>kv. if fst kv = ''offset'' then (''offset'', t) else kv) d = d"
      by (induction d) auto
    with True show ?thesis by (cases a) (simp add: offset_set_def)
  next
    case False
    with Cons show ?thesis by (cases a) (auto simp: offset_set_def)
  qed
qed

lemma dict_del_set_offset_readded:
  "dict_set (dict_del d ''offset'') ''offset'' t = offset_readded d t"
proof -
  have "''offset'' \<notin> fst ` set (filter (\<lambda>kv. fst kv \<noteq> ''offset'') d)"
    by auto
  then show ?thesis
    unfolding dict_del_def offset_readded_def by (rule dict_set_new)
qed

lemma offset_set_facts:
  assumes "distinct (map fst d)"
  shows "distinct (map fst (offset_set d t))"
    and "map_of (offset_set d t) = (map_of d)(''offset'' \<mapsto> t)"
    and "filter (\<lambda>kv. fst kv \<noteq> ''offset'') (offset_set d t)
           = filter (\<lambda>kv. fst kv \<noteq> ''offset'') d"
    and "filter (\<lambda>kv. fst kv = ''offset'') (offset_set d t) = [(''offset'', t)]"
proof -
  note eq = dict_set_offset_set [OF assms, symmetric]
  show "distinct (map fst (offset_set d t))"
    unfolding eq by (rule distinct_dict_set [OF assms])
  show "map_of (offset_set d t) = (map_of d)(''offset'' \<mapsto> t)"
    unfolding eq by (rule map_of_dict_set)
  show "filter (\<lambda>kv. fst kv \<noteq> ''offset'') (offset_set d t)
           = filter (\<lambda>kv. fst kv \<noteq> ''offset'') d"
    unfolding eq by (rule dict_set_filter_others)
  have "filter (\<lambda>kv. fst kv = ''offset'') (dict_set d ''offset'' t) = [(''offset'', t)]"
    using assms
  proof (induction d)
    case Nil
    then show ?case by simp
  next
    case (Cons a d)
    have "filter (\<lambda>kv. fst kv = ''offset'') d = []" if "''offset'' \<notin> fst ` set d"
      using that by (induction d) auto
    with Cons show ?case by (cases a) auto
  qed
  then show "filter (\<lambda>kv. fst kv = ''offset'') (offset_set d t) = [(''offset'', t)]"
    unfolding eq .
qed

lemma offset_readded_facts:
  assumes "distinct (map fst d)"
  shows "distinct (map fst (offset_readded d t))"
    and "map_of (offset_readded d t) = (map_of d)(''offset'' \<mapsto> t)"
    and "filter (\<lambda>kv. fst kv = ''offset'') (offset_readded d t) = [(''offset'', t)]"
proof -
  show "distinct (map fst (offset_readded d t))"
    using assms by (auto simp: offset_readded_def distinct_map_filter)
  have "map_of (filter (\<lambda>kv. fst kv \<noteq> ''offset'') d) k
          = (if k = ''offset'' then None else map_of d k)" for k
    by (induction d) auto
  then show "map_of (offset_readded d t) = (map_of d)(''offset'' \<mapsto> t)"
    by (auto simp: offset_readded_def fun_eq_iff map_add_def split: option.splits)
  show "filter (\<lambda>kv. fst kv = ''offset'') (offset_readded d t) = [(''offset'', t)]"
    by (simp add: offset_readded_def)
qed

section \<open>Pagination links\<close>

lemma next_link_page_link:
  "next_link b request url t
     = page_link b ''next'' ''Next page'' url (offset_set (qp_dict (query_params request)) t)"
  by (simp add: next_link_def page_link_def dict_set_offset_set [OF distinct_qp_dict])

lemma offset_readded_not_Nil: "offset_readded d t \<noteq> []"
  by (simp add: offset_readded_def)

lemma prev_link_offset:
  "''offset'' \<in> fst ` set (query_params request) \<Longrightarrow>
   prev_link b request url t
     = Inr (page_link b ''prev'' ''Previous page'' url
              (offset_readded (qp_dict (query_params request)) t))"
  by (simp add: prev_link_def Let_def dict_contains_qp_dict dict_del_set_offset_readded
      offset_readded_not_Nil page_link_def)

lemma prev_link_no_offset:
  "''offset'' \<notin> fst ` set (query_params request) \<Longrightarrow>
   prev_link b request url t = Inl (KeyError ''offset'')"
  by (simp add: prev_link_def Let_def dict_contains_qp_dict)

lemma prev_link_Inr:
  "prev_link b request url t = Inr l \<Longrightarrow>
   ''offset'' \<in> fst ` set (query_params request)
   \<and> l = page_link b ''prev'' ''Previous page'' url
            (offset_readded (qp_dict (query_params request)) t)"
  using prev_link_offset [of request b url t] prev_link_no_offset [of request b url t]
  by (cases "''offset'' \<in> fst ` set (query_params request)") auto

lemma pagination_links_KeyError:
  "il_prev item_list = Some t \<Longrightarrow> ''offset'' \<notin> fst ` set (query_params request) \<Longrightarrow>
   pagination_links b request url item_list links0 = Inl (KeyError ''offset'')"
  by (simp add: pagination_links_def Let_def prev_link_no_offset)

lemma pagination_links_total:
  "il_prev item_list = None \<or> ''offset'' \<in> fst ` set (query_params request) \<Longrightarrow>
   \<exists>ls. pagination_links b request url item_list links0 = Inr ls"
  by (cases "il_prev item_list") (auto simp: pagination_links_def Let_def prev_link_offset)

lemma pagination_links_Inr:
  assumes "pagination_links b request url item_list links0 = Inr ls"
  shows "ls = links0
           @ (case il_next item_list of
                None \<Rightarrow> []
              | Some t \<Rightarrow>
                  if t = [] then []
                  else [page_link b ''next'' ''Next page'' url
                          (offset_set (qp_dict (query_params request)) t)])
           @ (case il_prev item_list of
                None \<Rightarrow> []
              | Some t \<Rightarrow>
                  [page_link b ''prev'' ''Previous page'' url
                     (offset_readded (qp_dict (query_params request)) t)])"
    and "il_prev item_list = None \<or> ''offset'' \<in> fst ` set (query_params request)"
proof -
  let ?n = "case il_next item_list of
                None \<Rightarrow> []
              | Some t \<Rightarrow>
                  if t = [] then []
                  else [page_link b ''next'' ''Next page'' url
                          (offset_set (qp_dict (query_params request)) t)]"
  have n: "(case il_next item_list of
               None \<Rightarrow> links0
             | Some next_token \<Rightarrow>
                 if next_token = [] then links0
                 else links0 @ [next_link b request url next_token]) = links0 @ ?n"
    by (simp add: next_link_page_link split: option.splits)
  show "ls = links0 @ ?n
           @ (case il_prev item_list of
                None \<Rightarrow> []
              | Some t \<Rightarrow>
                  [page_link b ''prev'' ''Previous page'' url
                     (offset_readded (qp_dict (query_params request)) t)])"
  proof (cases "il_prev item_list")
    case None
    with assms show ?thesis by (simp add: pagination_links_def Let_def n)
  next
    case (Some t)
    with assms obtain l where "prev_link b request url t = Inr l" and "ls = (links0 @ ?n) @ [l]"
      by (auto simp: pagination_links_def Let_def n and_then_eq_Inr)
    with Some prev_link_Inr [of b request url t l] show ?thesis by simp
  qed
  show "il_prev item_list = None \<or> ''offset'' \<in> fst ` set (query_params request)"
  proof (cases "il_prev item_list")
    case None
    then show ?thesis by simp
  next
    case (Some t)
    with assms obtain l where "prev_link b request url t = Inr l"
      by (auto simp: pagination_links_def Let_def and_then_eq_Inr)
    with prev_link_Inr [of b request url t l] show ?thesis by simp
  qed
qed

lemma pagination_links_paged:
  assumes "pagination_links b request url item_list links0 = Inr ls"
    and "rel_links ''next'' links0 = []" and "rel_links ''prev'' links0 = []"
  shows "paged b request url item_list ls"
  unfolding paged_def pagination_links_Inr(1) [OF assms(1)]
  using assms(2,3)
  by (simp add: rel_links_def page_link_def split: option.splits)

section \<open>The links of the list and search handlers\<close>

text \<open>
  Without row output the list handler ends as its pagination block does: with the
  block's error, or with a document that holds the block's links.
\<close>

lemma items_links:
  assumes nr: "\<not> row_output (resolve_output_type output_type)"
    and cf: "collection_features b collection
           (items_features_kwargs ids_filter bbox_filter datetime_filter properties cql_filter
              sortby query limit offset bbox_only simplify
              (geom_as_wkt_of (resolve_output_type output_type))) = Inr item_list"
  obtains links0 where
    "rel_links ''next'' links0 = []" "rel_links ''prev'' links0 = []"
    "\<And>e. pagination_links b request
            (url_for b ''items'' [(''collectionId'', PStr (coll_id collection))])
            item_list links0 = Inl e \<Longrightarrow>
          items b request collection ids_filter bbox_filter datetime_filter properties
            cql_filter sortby query limit offset bbox_only simplify output_type = Inl e"
    "\<And>ls. pagination_links b request
             (url_for b ''items'' [(''collectionId'', PStr (coll_id collection))])
             item_list links0 = Inr ls \<Longrightarrow>
          \<exists>resp. items b request collection ids_filter bbox_filter datetime_filter properties
                   cql_filter sortby query limit offset bbox_only simplify output_type
                 = Inr resp
               \<and> response_links resp
                   = (if resolve_output_type output_type = geojsonseq then None else Some ls)"
proof -
  let ?cid = "[(''collectionId'', PStr (coll_id collection))]"
  let ?links0 =
    "[\<lparr> href = url_for b ''collection'' ?cid, rel = ''collection'',
        link_type = ''application/json'', link_title = Some ''Collection'' \<rparr>,
      \<lparr> href = url_for b ''items'' ?cid
               @ (if query_params request \<noteq> []
                  then ''?'' @ urlencode b (query_params request) else []),
        rel = ''self'', link_type = ''application/geo+json'',
        link_title = Some ''Items'' \<rparr>]"
  have eq: "items b request collection ids_filter bbox_filter datetime_filter properties
              cql_filter sortby query limit offset bbox_only simplify output_type
            = and_then (pagination_links b request (url_for b ''items'' ?cid) item_list ?links0)
                (\<lambda>links. X links)"
    if "\<And>links. X links = (let data =
                                \<lparr> fc_id = Some (coll_id collection),
                                  fc_title =
                                    Some (str_or (coll_title collection) (coll_id collection)),
                                  fc_description =
                                    str_or (coll_description collection)
                                      (str_or (coll_title collection) (coll_id collection)),
                                  numberMatched = il_matched item_list,
                                  numberReturned = length (il_items item_list),
                                  links = links,
                                  features =
                                    map (\<lambda>feature.
                                           (feature,
                                            feature_links b (PStr (coll_id collection))
                                              (feature_id feature)))
                                      (il_items item_list) \<rparr>
                          in Inr (if resolve_output_type output_type = html then
                                    HTMLResponse (CollectionDoc data) ''items''
                                  else if resolve_output_type output_type = geojsonseq then
                                    StreamingResponse (FeatureSeq (features data)) geojsonseq
                                      ''attachment;filename=items.geojson''
                                  else GeoJSONResponse (CollectionDoc data)))" for X
    using nr cf that by (simp add: items_def Let_def)
  show ?thesis
  proof (rule that [of ?links0])
    show "rel_links ''next'' ?links0 = []" "rel_links ''prev'' ?links0 = []"
      by (simp_all add: rel_links_def)
  next
    fix e
    assume "pagination_links b request (url_for b ''items'' ?cid) item_list ?links0 = Inl e"
    then show "items b request collection ids_filter bbox_filter datetime_filter properties
                 cql_filter sortby query limit offset bbox_only simplify output_type = Inl e"
      by (subst eq [OF refl]) simp
  next
    fix ls
    assume "pagination_links b request (url_for b ''items'' ?cid) item_list ?links0 = Inr ls"
    then show "\<exists>resp. items b request collection ids_filter bbox_filter datetime_filter
                       properties cql_filter sortby query limit offset bbox_only simplify
                       output_type = Inr resp
               \<and> response_links resp
                   = (if resolve_output_type output_type = geojsonseq then None else Some ls)"
      by (subst eq [OF refl]) (simp add: Let_def)
  qed
qed

lemma search_response_links:
  assumes nr: "\<not> row_output output_type"
  shows "pagination_links b request (url_for b ''get_search'' []) item_list [] = Inl e \<Longrightarrow>
         search_response b request output_type item_list = Inl e"
    and "pagination_links b request (url_for b ''get_search'' []) item_list [] = Inr ls \<Longrightarrow>
         \<exists>resp. search_response b request output_type item_list = Inr resp
              \<and> response_links resp = (if output_type = geojsonseq then None else Some ls)"
  using nr by (simp_all add: search_response_def Let_def)

lemma search_response_rows:
  "row_output output_type \<Longrightarrow>
   search_response b request output_type item_list
     = Inr (rows_response output_type (map search_row (il_items item_list)))"
  by (simp add: search_response_def)

lemma get_search_envelope:
  assumes "get_search_request b collections_filter ids_filter bbox_filter datetime_filter
             properties cql_filter sortby query limit offset = Inr clean"
    and "model_validate b clean = Inr search" and "pgstac_search b search = Inr item_list"
  shows "get_search b request collections_filter ids_filter bbox_filter datetime_filter
           properties cql_filter sortby query limit offset bbox_only simplify output_type
         = search_response b request (resolve_output_type output_type) item_list"
  using assms by (simp add: get_search_def Let_def)

lemma post_search_envelope:
  "pgstac_search b search = Inr item_list \<Longrightarrow>
   post_search b request search output_type
     = search_response b request (resolve_output_type output_type) item_list"
  by (simp add: post_search_def Let_def)

section \<open>What the pagination block gives the handlers\<close>

lemma items_paged:
  assumes cf: "collection_features b collection
              (items_features_kwargs ids_filter bbox_filter datetime_filter properties
                 cql_filter sortby query limit offset bbox_only simplify
                 (geom_as_wkt_of (resolve_output_type output_type))) = Inr item_list"
    and r: "items b request collection ids_filter bbox_filter datetime_filter properties
              cql_filter sortby query limit offset bbox_only simplify output_type = Inr resp"
    and l: "response_links resp = Some ls"
  shows "paged b request (url_for b ''items'' [(''collectionId'', PStr (coll_id collection))])
           item_list ls"
proof -
  let ?iurl = "url_for b ''items'' [(''collectionId'', PStr (coll_id collection))]"
  let ?ot = "resolve_output_type output_type"
  have nr: "\<not> row_output ?ot"
    using items_items_rows [OF _ cf, of request] r l
    by (auto simp: response_links_rows_response)
  from nr cf obtain links0 where z: "rel_links ''next'' links0 = []"
      "rel_links ''prev'' links0 = []"
    and e: "\<And>e. pagination_links b request ?iurl item_list links0 = Inl e \<Longrightarrow>
        items b request collection ids_filter bbox_filter datetime_filter properties
          cql_filter sortby query limit offset bbox_only simplify output_type = Inl e"
    and k: "\<And>ls. pagination_links b request ?iurl item_list links0 = Inr ls \<Longrightarrow>
        \<exists>resp. items b request collection ids_filter bbox_filter datetime_filter properties
                 cql_filter sortby query limit offset bbox_only simplify output_type
               = Inr resp
             \<and> response_links resp = (if ?ot = geojsonseq then None else Some ls)"
    by (rule items_links) blast
  show ?thesis
  proof (cases "pagination_links b request ?iurl item_list links0")
    case (Inl x)
    with e r show ?thesis by simp
  next
    case (Inr ls')
    with k r l have "ls' = ls" by (auto split: if_splits)
    with Inr z show ?thesis by (simp add: pagination_links_paged)
  qed
qed

lemma search_response_paged:
  assumes "search_response b request output_type item_list = Inr resp"
    and l: "response_links resp = Some ls"
  shows "paged b request (url_for b ''get_search'' []) item_list ls"
proof -
  have nr: "\<not> row_output output_type"
    using assms by (auto simp: search_response_rows response_links_rows_response)
  show ?thesis
  proof (cases "pagination_links b request (url_for b ''get_search'' []) item_list []")
    case (Inl x)
    with search_response_links(1) [OF nr] assms show ?thesis by simp
  next
    case (Inr ls')
    with search_response_links(2) [OF nr Inr] assms have "ls' = ls"
      by (auto split: if_splits)
    with Inr show ?thesis by (simp add: pagination_links_paged rel_links_def)
  qed
qed

lemma link_output:
  assumes "output_type \<notin> {csv, json, ndjson, geojsonseq}"
  shows "\<not> row_output output_type" and "output_type \<noteq> geojsonseq"
  using assms by (auto simp: row_output_def)

lemma items_responds:
  assumes cf: "collection_features b collection
              (items_features_kwargs ids_filter bbox_filter datetime_filter properties
                 cql_filter sortby query limit offset bbox_only simplify
                 (geom_as_wkt_of (resolve_output_type output_type))) = Inr item_list"
    and o: "resolve_output_type output_type \<notin> {csv, json, ndjson, geojsonseq}"
    and p: "il_prev item_list = None \<or> ''offset'' \<in> fst ` set (query_params request)"
  shows "\<exists>resp ls. items b request collection ids_filter bbox_filter datetime_filter
                    properties cql_filter sortby query limit offset bbox_only simplify
                    output_type = Inr resp
                \<and> response_links resp = Some ls"
proof -
  let ?iurl = "url_for b ''items'' [(''collectionId'', PStr (coll_id collection))]"
  from link_output(1) [OF o] cf obtain links0 where
    k: "\<And>ls. pagination_links b request ?iurl item_list links0 = Inr ls \<Longrightarrow>
        \<exists>resp. items b request collection ids_filter bbox_filter datetime_filter properties
                 cql_filter sortby query limit offset bbox_only simplify output_type
               = Inr resp
             \<and> response_links resp
                 = (if resolve_output_type output_type = geojsonseq then None else Some ls)"
    by (rule items_links) blast
  from pagination_links_total [OF p] obtain ls where
    "pagination_links b request ?iurl item_list links0 = Inr ls" by blast
  from k [OF this] link_output(2) [OF o] show ?thesis by auto
qed

lemma search_response_responds:
  assumes o: "output_type \<notin> {csv, json, ndjson, geojsonseq}"
    and p: "il_prev item_list = None \<or> ''offset'' \<in> fst ` set (query_params request)"
  shows "\<exists>resp ls. search_response b request output_type item_list = Inr resp
                \<and> response_links resp = Some ls"
proof -
  from pagination_links_total [OF p] obtain ls where
    "pagination_links b request (url_for b ''get_search'' []) item_list [] = Inr ls" by blast
  from search_response_links(2) [OF link_output(1) [OF o] this] link_output(2) [OF o]
  show ?thesis by auto
qed

lemma offset_readded_others:
  "filter (\<lambda>kv. fst kv \<noteq> ''offset'') (offset_readded d t)
     = filter (\<lambda>kv. fst kv \<noteq> ''offset'') d"
  by (simp add: offset_readded_def)

lemma items_links_of_paged:
  assumes cf: "collection_features b collection
              (items_features_kwargs ids_filter bbox_filter datetime_filter properties
                 cql_filter sortby query limit offset bbox_only simplify
                 (geom_as_wkt_of (resolve_output_type output_type))) = Inr item_list"
    and o: "resolve_output_type output_type \<notin> {csv, json, ndjson, geojsonseq}"
    and p: "il_prev item_list = None \<or> ''offset'' \<in> fst ` set (query_params request)"
  shows "paged b request (url_for b ''items'' [(''collectionId'', PStr (coll_id collection))])
           item_list
           (links_of (items b request collection ids_filter bbox_filter datetime_filter
                        properties cql_filter sortby query limit offset bbox_only simplify
                        output_type))"
proof -
  from items_responds [OF cf o p] obtain resp ls where
    r: "items b request collection ids_filter bbox_filter datetime_filter properties
          cql_filter sortby query limit offset bbox_only simplify output_type = Inr resp"
    and l: "response_links resp = Some ls" by blast
  from items_paged [OF cf r l] r l show ?thesis by (simp add: links_of_def)
qed

text \<open>
  Claim C1, amended. A List-Items or GET-Search response that carries links (GeoJSON or
  HTML output) has exactly one \<open>next\<close> link when the envelope's next token is a
  non-empty string and none when the token is absent or empty, and exactly one \<open>prev\<close>
  link when the envelope has a prev token and none when it is absent. Both point to the
  handler's own route. Their query parameters start from the request's parameters with
  every name given once, at the place of its first occurrence and with its last value
  (for a request that gives every name once: the request's parameters as they are). The
  \<open>next\<close> link has \<open>offset\<close> set to the next token, where it stands or else at the end;
  the \<open>prev\<close> link has \<open>offset\<close> removed and re-added at the end with the prev token.
  Either way \<open>offset\<close> occurs once, its value is the token itself, and the other
  parameters are kept in order. With link-bearing output a response is produced whenever
  the envelope has no prev token or the request has an \<open>offset\<close> parameter.
\<close>

theorem next_and_prev_links:
  "(collection_features b collection
      (items_features_kwargs ids_filter bbox_filter datetime_filter properties cql_filter
         sortby query limit offset bbox_only simplify
         (geom_as_wkt_of (resolve_output_type output_type))) = Inr item_list
    \<and> items b request collection ids_filter bbox_filter datetime_filter properties
         cql_filter sortby query limit offset bbox_only simplify output_type = Inr resp
    \<and> response_links resp = Some ls \<longrightarrow>
      paged b request (url_for b ''items'' [(''collectionId'', PStr (coll_id collection))])
        item_list ls)
   \<and> (get_search_request b collections_filter ids_filter bbox_filter datetime_filter
         properties cql_filter sortby query limit offset = Inr clean
       \<and> model_validate b clean = Inr search \<and> pgstac_search b search = Inr search_list
       \<and> get_search b request collections_filter ids_filter bbox_filter datetime_filter
            properties cql_filter sortby query limit offset bbox_only simplify output_type
          = Inr sresp
       \<and> response_links sresp = Some sls \<longrightarrow>
      paged b request (url_for b ''get_search'' []) search_list sls)
   \<and> (collection_features b collection
         (items_features_kwargs ids_filter bbox_filter datetime_filter properties cql_filter
            sortby query limit offset bbox_only simplify
            (geom_as_wkt_of (resolve_output_type output_type))) = Inr item_list
       \<and> resolve_output_type output_type \<notin> {csv, json, ndjson, geojsonseq}
       \<and> (il_prev item_list = None \<or> ''offset'' \<in> fst ` set (query_params request)) \<longrightarrow>
      (\<exists>resp ls. items b request collection ids_filter bbox_filter datetime_filter
                    properties cql_filter sortby query limit offset bbox_only simplify
                    output_type = Inr resp
                \<and> response_links resp = Some ls))
   \<and> (get_search_request b collections_filter ids_filter bbox_filter datetime_filter
         properties cql_filter sortby query limit offset = Inr clean
       \<and> model_validate b clean = Inr search \<and> pgstac_search b search = Inr search_list
       \<and> resolve_output_type output_type \<notin> {csv, json, ndjson, geojsonseq}
       \<and> (il_prev search_list = None \<or> ''offset'' \<in> fst ` set (query_params request)) \<longrightarrow>
      (\<exists>resp ls. get_search b request collections_filter ids_filter bbox_filter
                    datetime_filter properties cql_filter sortby query limit offset
                    bbox_only simplify output_type = Inr resp
                \<and> response_links resp = Some ls))
   \<and> distinct (map fst (qp_dict (query_params request)))
   \<and> map_of (qp_dict (query_params request)) = map_of (rev (query_params request))
   \<and> map fst (qp_dict (query_params request))
       = rev (remdups (rev (map fst (query_params request))))
   \<and> (distinct (map fst (query_params request)) \<longrightarrow>
        qp_dict (query_params request) = query_params request)
   \<and> distinct (map fst (offset_set (qp_dict (query_params request)) t))
   \<and> filter (\<lambda>kv. fst kv = ''offset'') (offset_set (qp_dict (query_params request)) t)
       = [(''offset'', t)]
   \<and> filter (\<lambda>kv. fst kv \<noteq> ''offset'') (offset_set (qp_dict (query_params request)) t)
       = filter (\<lambda>kv. fst kv \<noteq> ''offset'') (qp_dict (query_params request))
   \<and> distinct (map fst (offset_readded (qp_dict (query_params request)) t))
   \<and> filter (\<lambda>kv. fst kv = ''offset'') (offset_readded (qp_dict (query_params request)) t)
       = [(''offset'', t)]
   \<and> filter (\<lambda>kv. fst kv \<noteq> ''offset'') (offset_readded (qp_dict (query_params request)) t)
       = filter (\<lambda>kv. fst kv \<noteq> ''offset'') (qp_dict (query_params request))"
proof -
  let ?ot = "resolve_output_type output_type"
  note d = distinct_qp_dict [of "query_params request"]
  have ge: "get_search b request collections_filter ids_filter bbox_filter datetime_filter
              properties cql_filter sortby query limit offset bbox_only simplify output_type
            = search_response b request ?ot search_list"
    if "get_search_request b collections_filter ids_filter bbox_filter datetime_filter
          properties cql_filter sortby query limit offset = Inr clean"
      and "model_validate b clean = Inr search" and "pgstac_search b search = Inr search_list"
    using that by (rule get_search_envelope)
  show ?thesis
    apply (intro conjI impI)
    subgoal by (elim conjE) (rule items_paged; assumption)
    subgoal by (elim conjE) (rule search_response_paged; simp add: ge)
    subgoal by (elim conjE) (rule items_responds; assumption)
    subgoal using search_response_responds [of ?ot search_list request b]
      by (elim conjE) (simp add: ge)
    subgoal by (rule d)
    subgoal by (rule map_of_qp_dict)
    subgoal by (rule keys_order_qp_dict)
    subgoal by (rule qp_dict_distinct)
    subgoal by (rule offset_set_facts(1) [OF d])
    subgoal by (rule offset_set_facts(4) [OF d])
    subgoal by (rule offset_set_facts(3) [OF d])
    subgoal by (rule offset_readded_facts(1) [OF d])
    subgoal by (rule offset_readded_facts(3) [OF d])
    subgoal by (rule offset_readded_others)
    done
qed

theorem next_and_prev_links_witness:
  "map href (rel_links ''next'' (links_of
      (items (sample_boundary (sample_item_list (Some ''T2'') (Some ''T0'')))
         \<lparr>query_params = [(''limit'', ''10''), (''offset'', ''T1'')]\<rparr> sample_collection
         None None None None None None None 10 (Some ''T1'') None None None)))
     = [''/items?limit=10&offset=T2'']
   \<and> map href (rel_links ''prev'' (links_of
      (items (sample_boundary (sample_item_list (Some ''T2'') (Some ''T0'')))
         \<lparr>query_params = [(''limit'', ''10''), (''offset'', ''T1'')]\<rparr> sample_collection
         None None None None None None None 10 (Some ''T1'') None None None)))
     = [''/items?limit=10&offset=T0'']
   \<and> map href (rel_links ''next'' (links_of
      (get_search (sample_boundary (sample_item_list (Some ''T2'') (Some ''T0'')))
         \<lparr>query_params = [(''offset'', ''T1''), (''limit'', ''10'')]\<rparr>
         None None None None None None None None 10 (Some ''T1'') None None (Some html))))
     = [''/get_search?offset=T2&limit=10'']
   \<and> map href (rel_links ''prev'' (links_of
      (get_search (sample_boundary (sample_item_list (Some ''T2'') (Some ''T0'')))
         \<lparr>query_params = [(''offset'', ''T1''), (''limit'', ''10'')]\<rparr>
         None None None None None None None None 10 (Some ''T1'') None None (Some html))))
     = [''/get_search?limit=10&offset=T0'']
   \<and> qp_dict [(''limit'', ''10''), (''offset'', ''T1'')]
       = [(''limit'', ''10''), (''offset'', ''T1'')]"
proof -
  let ?il = "sample_item_list (Some ''T2'') (Some ''T0'')"
  let ?b = "sample_boundary ?il"
  let ?r1 = "\<lparr>query_params = [(''limit'', ''10''), (''offset'', ''T1'')]\<rparr>"
  let ?r2 = "\<lparr>query_params = [(''offset'', ''T1''), (''limit'', ''10'')]\<rparr>"
  let ?clean = "[(''limit'', PInt 10), (''token'', PStr ''T1'')]"
  have bnd: "collection_features ?b c k = Inr ?il" "model_validate ?b d = Inr d"
    "pgstac_search ?b d = Inr ?il" "url_for ?b name ps = ''/'' @ name"
    "urlencode ?b = sample_urlencode" for c k d name ps
    by (simp_all add: sample_boundary_def)
  have il: "il_next ?il = Some ''T2''" "il_prev ?il = Some ''T0''"
    by (simp_all add: sample_item_list_def)
  have req: "get_search_request ?b None None None None None None None None 10 (Some ''T1'')
               = Inr ?clean"
    by (simp add: get_search_request_def get_search_datetime_def get_search_base_args_flat
        query_value_def filter_args_def datetime_args_def sortby_args_def fields_args_def
        opt_list_def opt_str_def clean_args_def)
  have o: "resolve_output_type None \<notin> {csv, json, ndjson, geojsonseq}"
    "resolve_output_type (Some html) \<notin> {csv, json, ndjson, geojsonseq}"
    by (simp_all add: resolve_output_type_def)
  have q: "qp_dict [(''limit'', ''10''), (''offset'', ''T1'')]
             = [(''limit'', ''10''), (''offset'', ''T1'')]"
    "qp_dict [(''offset'', ''T1''), (''limit'', ''10'')]
             = [(''offset'', ''T1''), (''limit'', ''10'')]"
    by (simp_all add: qp_dict_def dict_of_def)
  note t1 = next_and_prev_links [where b = ?b and collection = sample_collection
      and ids_filter = None and bbox_filter = None and datetime_filter = None
      and properties = None and cql_filter = None and sortby = None and query = None
      and limit = 10 and offset = "Some ''T1''" and bbox_only = None and simplify = None
      and output_type = None and item_list = ?il and request = ?r1
      and collections_filter = None and clean = ?clean and search = ?clean
      and search_list = ?il and t = "''T2''"]
  note t2 = next_and_prev_links [where b = ?b and collection = sample_collection
      and ids_filter = None and bbox_filter = None and datetime_filter = None
      and properties = None and cql_filter = None and sortby = None and query = None
      and limit = 10 and offset = "Some ''T1''" and bbox_only = None and simplify = None
      and output_type = "Some html" and item_list = ?il and request = ?r2
      and collections_filter = None and clean = ?clean and search = ?clean
      and search_list = ?il and t = "''T2''"]
  obtain resp ls where i: "items ?b ?r1 sample_collection None None None None None None None
                             10 (Some ''T1'') None None None = Inr resp"
      "response_links resp = Some ls"
    using t1 [THEN conjunct2, THEN conjunct2, THEN conjunct1] o(1)
    by (auto simp: bnd)
  have ip: "paged ?b ?r1 (url_for ?b ''items'' [(''collectionId'', PStr (coll_id sample_collection))])
              ?il ls"
    using t1 [where resp = resp and ls = ls, THEN conjunct1] i by (simp add: bnd)
  obtain sresp sls where g: "get_search ?b ?r2 None None None None None None None None 10
                               (Some ''T1'') None None (Some html) = Inr sresp"
      "response_links sresp = Some sls"
    using t2 [THEN conjunct2, THEN conjunct2, THEN conjunct2, THEN conjunct1] o(2)
    by (auto simp: bnd req)
  have gp: "paged ?b ?r2 (url_for ?b ''get_search'' []) ?il sls"
    using t2 [where sresp = sresp and sls = sls, THEN conjunct2, THEN conjunct1] g
    by (simp add: bnd req)
  have e1: "links_of (items ?b ?r1 sample_collection None None None None None None None
                        10 (Some ''T1'') None None None) = ls"
    and e2: "links_of (get_search ?b ?r2 None None None None None None None None 10
                         (Some ''T1'') None None (Some html)) = sls"
    using i g by (simp_all add: links_of_def)
  show ?thesis
    using ip gp
    unfolding e1 e2 paged_def il
    by (simp add: q bnd page_link_def offset_set_def offset_readded_def sample_urlencode_def)
qed

text \<open>
  The claim as written fails in two places. A parameter name given twice keeps only its
  last value in the \<open>next\<close> link, so the link's query string is not the request's with
  \<open>offset\<close> set: for \<open>?ids=a&ids=b\<close> and token \<open>T\<close> it is \<open>ids=b&offset=T\<close>. And an
  envelope whose next token is the empty string contains a token and gets no \<open>next\<close>
  link.
\<close>

theorem next_link_counterexample:
  "map href (rel_links ''next'' (links_of
      (items (sample_boundary (sample_item_list (Some ''T'') None))
         \<lparr>query_params = [(''ids'', ''a''), (''ids'', ''b'')]\<rparr> sample_collection
         None None None None None None None 10 None None None None)))
     = [''/items?ids=b&offset=T'']
   \<and> ''/items?'' @ sample_urlencode (offset_set [(''ids'', ''a''), (''ids'', ''b'')] ''T'')
       = ''/items?ids=a&ids=b&offset=T''
   \<and> il_next (sample_item_list (Some []) None) = Some []
   \<and> rel_links ''next'' (links_of
      (items (sample_boundary (sample_item_list (Some []) None))
         \<lparr>query_params = []\<rparr> sample_collection
         None None None None None None None 10 None None None None)) = []"
proof -
  let ?r = "\<lparr>query_params = [(''ids'', ''a''), (''ids'', ''b'')]\<rparr>"
  have bnd: "collection_features (sample_boundary il) c k = Inr il"
    "url_for (sample_boundary il) name ps = ''/'' @ name"
    "urlencode (sample_boundary il) = sample_urlencode" for il c k name ps
    by (simp_all add: sample_boundary_def)
  have o: "resolve_output_type None \<notin> {csv, json, ndjson, geojsonseq}"
    by (simp add: resolve_output_type_def)
  have il: "il_next (sample_item_list n p) = n" "il_prev (sample_item_list n p) = p" for n p
    by (simp_all add: sample_item_list_def)
  have q: "qp_dict [(''ids'', ''a''), (''ids'', ''b'')] = [(''ids'', ''b'')]" "qp_dict [] = []"
    by (simp_all add: qp_dict_def dict_of_def)
  have 1: "paged (sample_boundary (sample_item_list (Some ''T'') None)) ?r
             (url_for (sample_boundary (sample_item_list (Some ''T'') None)) ''items''
                [(''collectionId'', PStr (coll_id sample_collection))])
             (sample_item_list (Some ''T'') None)
             (links_of (items (sample_boundary (sample_item_list (Some ''T'') None)) ?r
                sample_collection None None None None None None None 10 None None None None))"
    by (rule items_links_of_paged [OF bnd(1) o]) (simp add: il)
  have 2: "paged (sample_boundary (sample_item_list (Some []) None)) \<lparr>query_params = []\<rparr>
             (url_for (sample_boundary (sample_item_list (Some []) None)) ''items''
                [(''collectionId'', PStr (coll_id sample_collection))])
             (sample_item_list (Some []) None)
             (links_of (items (sample_boundary (sample_item_list (Some []) None))
                \<lparr>query_params = []\<rparr>
                sample_collection None None None None None None None 10 None None None None))"
    by (rule items_links_of_paged [OF bnd(1) o]) (simp add: il)
  show ?thesis
    using 1 2 unfolding paged_def il
    by (simp add: q bnd page_link_def offset_set_def sample_urlencode_def)
qed

section \<open>A prev token and no offset parameter\<close>

lemma items_KeyError:
  assumes "''offset'' \<notin> fst ` set (query_params request)" and "il_prev item_list = Some t"
    and nr: "\<not> row_output (resolve_output_type output_type)"
    and cf: "collection_features b collection
           (items_features_kwargs ids_filter bbox_filter datetime_filter properties cql_filter
              sortby query limit offset bbox_only simplify
              (geom_as_wkt_of (resolve_output_type output_type))) = Inr item_list"
  shows "items b request collection ids_filter bbox_filter datetime_filter properties
           cql_filter sortby query limit offset bbox_only simplify output_type
         = Inl (KeyError ''offset'')"
proof -
  from nr cf obtain links0 where
    e: "\<And>e. pagination_links b request
            (url_for b ''items'' [(''collectionId'', PStr (coll_id collection))])
            item_list links0 = Inl e \<Longrightarrow>
          items b request collection ids_filter bbox_filter datetime_filter properties
            cql_filter sortby query limit offset bbox_only simplify output_type = Inl e"
    by (rule items_links) blast
  show ?thesis
    by (rule e) (rule pagination_links_KeyError [OF assms(2,1)])
qed

lemma search_response_KeyError:
  assumes "''offset'' \<notin> fst ` set (query_params request)" and "il_prev item_list = Some t"
    and nr: "\<not> row_output output_type"
  shows "search_response b request output_type item_list = Inl (KeyError ''offset'')"
  by (rule search_response_links(1) [OF nr]) (rule pagination_links_KeyError [OF assms(2,1)])

text \<open>
  Claim C4, amended. In the List-Items, GET-Search and POST-Search handlers the \<open>prev\<close>
  block removes the \<open>offset\<close> key unconditionally. So for a request without \<open>offset\<close>
  parameter whose envelope carries a prev token, the handler raises KeyError instead of
  producing a response whenever the output type is not CSV, JSON or NDJSON (GeoJSON,
  HTML, GeoJSON sequence and any other type reach the block). With CSV, JSON or NDJSON
  output the handler returns its rows before the block and no error is raised.
\<close>

theorem prev_token_without_offset:
  "(''offset'' \<notin> fst ` set (query_params request) \<and> il_prev item_list = Some t
    \<and> \<not> row_output (resolve_output_type output_type)
    \<and> collection_features b collection
         (items_features_kwargs ids_filter bbox_filter datetime_filter properties cql_filter
            sortby query limit offset bbox_only simplify
            (geom_as_wkt_of (resolve_output_type output_type))) = Inr item_list \<longrightarrow>
      items b request collection ids_filter bbox_filter datetime_filter properties
        cql_filter sortby query limit offset bbox_only simplify output_type
      = Inl (KeyError ''offset''))
   \<and> (''offset'' \<notin> fst ` set (query_params request) \<and> il_prev item_list = Some t
       \<and> \<not> row_output (resolve_output_type output_type)
       \<and> get_search_request b collections_filter ids_filter bbox_filter datetime_filter
            properties cql_filter sortby query limit offset = Inr clean
       \<and> model_validate b clean = Inr search \<and> pgstac_search b search = Inr item_list \<longrightarrow>
      get_search b request collections_filter ids_filter bbox_filter datetime_filter
        properties cql_filter sortby query limit offset bbox_only simplify output_type
      = Inl (KeyError ''offset''))
   \<and> (''offset'' \<notin> fst ` set (query_params request) \<and> il_prev item_list = Some t
       \<and> \<not> row_output (resolve_output_type output_type)
       \<and> pgstac_search b search = Inr item_list \<longrightarrow>
      post_search b request search output_type = Inl (KeyError ''offset''))
   \<and> (row_output (resolve_output_type output_type)
       \<and> collection_features b collection
            (items_features_kwargs ids_filter bbox_filter datetime_filter properties
               cql_filter sortby query limit offset bbox_only simplify
               (geom_as_wkt_of (resolve_output_type output_type))) = Inr item_list \<longrightarrow>
      items b request collection ids_filter bbox_filter datetime_filter properties
        cql_filter sortby query limit offset bbox_only simplify output_type
      = Inr (rows_response (resolve_output_type output_type)
               (map (items_row collection) (il_items item_list))))
   \<and> (row_output (resolve_output_type output_type)
       \<and> get_search_request b collections_filter ids_filter bbox_filter datetime_filter
            properties cql_filter sortby query limit offset = Inr clean
       \<and> model_validate b clean = Inr search \<and> pgstac_search b search = Inr item_list \<longrightarrow>
      get_search b request collections_filter ids_filter bbox_filter datetime_filter
        properties cql_filter sortby query limit offset bbox_only simplify output_type
      = Inr (rows_response (resolve_output_type output_type)
               (map search_row (il_items item_list))))
   \<and> (row_output (resolve_output_type output_type)
       \<and> pgstac_search b search = Inr item_list \<longrightarrow>
      post_search b request search output_type
      = Inr (rows_response (resolve_output_type output_type)
               (map search_row (il_items item_list))))"
  apply (intro conjI impI)
  subgoal by (elim conjE) (rule items_KeyError; assumption)
  subgoal by (elim conjE) (simp add: get_search_envelope search_response_KeyError)
  subgoal by (elim conjE) (simp add: post_search_envelope search_response_KeyError)
  subgoal by (elim conjE) (rule items_items_rows; assumption)
  subgoal by (elim conjE) (simp add: get_search_envelope search_response_rows)
  subgoal by (elim conjE) (simp add: post_search_envelope search_response_rows)
  done

theorem prev_token_without_offset_witness:
  "''offset'' \<notin> fst ` set (query_params \<lparr>query_params = [(''limit'', ''10'')]\<rparr>)
   \<and> il_prev (sample_item_list None (Some ''P'')) = Some ''P''
   \<and> \<not> row_output (resolve_output_type None)
   \<and> items (sample_boundary (sample_item_list None (Some ''P'')))
         \<lparr>query_params = [(''limit'', ''10'')]\<rparr> sample_collection
         None None None None None None None 10 None None None None
       = Inl (KeyError ''offset'')
   \<and> get_search (sample_boundary (sample_item_list None (Some ''P'')))
         \<lparr>query_params = [(''limit'', ''10'')]\<rparr>
         None None None None None None None None 10 None None None None
       = Inl (KeyError ''offset'')
   \<and> post_search (sample_boundary (sample_item_list None (Some ''P'')))
         \<lparr>query_params = [(''limit'', ''10'')]\<rparr> [(''limit'', PInt 10)] None
       = Inl (KeyError ''offset'')
   \<and> row_output (resolve_output_type (Some json))
   \<and> post_search (sample_boundary (sample_item_list None (Some ''P'')))
         \<lparr>query_params = [(''limit'', ''10'')]\<rparr> [(''limit'', PInt 10)] (Some json)
       = Inr (ORJSONResponse (Rows [search_row sample_feature]))"
proof -
  let ?il = "sample_item_list None (Some ''P'')"
  let ?b = "sample_boundary ?il"
  let ?r = "\<lparr>query_params = [(''limit'', ''10'')]\<rparr>"
  let ?clean = "[(''limit'', PInt 10)]"
  have bnd: "collection_features ?b c k = Inr ?il" "model_validate ?b d = Inr d"
    "pgstac_search ?b d = Inr ?il" for c k d
    by (simp_all add: sample_boundary_def)
  have h: "''offset'' \<notin> fst ` set (query_params ?r)" "il_prev ?il = Some ''P''"
    "\<not> row_output (resolve_output_type None)" "row_output (resolve_output_type (Some json))"
    "il_items ?il = [sample_feature]" "resolve_output_type (Some json) = json"
    by (simp_all add: sample_item_list_def row_output_def resolve_output_type_def)
  have req: "get_search_request ?b None None None None None None None None 10 None
               = Inr ?clean"
    by (simp add: get_search_request_def get_search_datetime_def get_search_base_args_flat
        query_value_def filter_args_def datetime_args_def sortby_args_def fields_args_def
        opt_list_def opt_str_def clean_args_def)
  note t = prev_token_without_offset [where b = ?b and request = ?r and item_list = ?il
      and t = "''P''" and collection = sample_collection and ids_filter = None
      and bbox_filter = None and datetime_filter = None and properties = None
      and cql_filter = None and sortby = None and query = None and limit = 10
      and offset = None and bbox_only = None and simplify = None
      and collections_filter = None and clean = ?clean and search = ?clean]
  show ?thesis
    using t [where output_type = None] t [where output_type = "Some json"] h req
    by (simp add: bnd rows_response_def)
qed

text \<open>
  The claim as written has the handler raise for every such request. With CSV output
  the list handler returns its rows although the envelope carries a prev token and the
  request has no \<open>offset\<close> parameter.
\<close>

theorem prev_token_without_offset_counterexample:
  "''offset'' \<notin> fst ` set (query_params \<lparr>query_params = [(''limit'', ''10'')]\<rparr>)
   \<and> il_prev (sample_item_list None (Some ''P'')) = Some ''P''
   \<and> items (sample_boundary (sample_item_list None (Some ''P'')))
         \<lparr>query_params = [(''limit'', ''10'')]\<rparr> sample_collection
         None None None None None None None 10 None None None (Some csv)
       = Inr (StreamingResponse (Rows [items_row sample_collection sample_feature]) csv
                ''attachment;filename=items.csv'')
   \<and> items (sample_boundary (sample_item_list None (Some ''P'')))
         \<lparr>query_params = [(''limit'', ''10'')]\<rparr> sample_collection
         None None None None None None None 10 None None None (Some csv)
       \<noteq> Inl (KeyError ''offset'')"
proof -
  let ?il = "sample_item_list None (Some ''P'')"
  have cf: "collection_features (sample_boundary ?il) c k = Inr ?il" for c k
    by (simp add: sample_boundary_def)
  have ro: "row_output (resolve_output_type (Some csv))"
    "resolve_output_type (Some csv) = csv"
    by (simp_all add: row_output_def resolve_output_type_def)
  have "items (sample_boundary ?il) \<lparr>query_params = [(''limit'', ''10'')]\<rparr> sample_collection
          None None None None None None None 10 None None None (Some csv)
        = Inr (rows_response csv (map (items_row sample_collection) (il_items ?il)))"
    using items_items_rows [OF ro(1) cf] by (simp add: ro(2))
  then show ?thesis
    by (simp add: rows_response_def sample_item_list_def)
qed

section \<open>The links of POST /search\<close>

text \<open>The links of a search document are the pagination links and nothing else.\<close>

lemma search_response_links_exact:
  assumes "search_response b request output_type item_list = Inr resp"
    and "response_links resp = Some ls"
  shows "ls = (case il_next item_list of
                 None \<Rightarrow> []
               | Some t \<Rightarrow>
                   if t = [] then []
                   else [page_link b ''next'' ''Next page'' (url_for b ''get_search'' [])
                           (offset_set (qp_dict (query_params request)) t)])
              @ (case il_prev item_list of
                   None \<Rightarrow> []
                 | Some t \<Rightarrow>
                     [page_link b ''prev'' ''Previous page'' (url_for b ''get_search'' [])
                        (offset_readded (qp_dict (query_params request)) t)])"
proof -
  have nr: "\<not> row_output output_type"
    using assms by (auto simp: search_response_rows response_links_rows_response)
  show ?thesis
  proof (cases "pagination_links b request (url_for b ''get_search'' []) item_list []")
    case (Inl x)
    with search_response_links(1) [OF nr] assms show ?thesis by simp
  next
    case (Inr ls')
    with search_response_links(2) [OF nr Inr] assms have "ls' = ls"
      by (auto split: if_splits)
    with pagination_links_Inr(1) [OF Inr] show ?thesis by simp
  qed
qed

lemma Request_eq: "query_params (r1 :: Request) = query_params r2 \<Longrightarrow> r1 = r2"
  by (cases r1, cases r2) simp

text \<open>
  Claim C10. POST /search builds its pagination links from the request's URL query
  parameters and the envelope alone, and points them at the GET search route: every link
  of a link-bearing response is a \<open>next\<close> or \<open>prev\<close> link whose address starts with the
  address of the \<open>get_search\<close> route and carries the request's query parameters with the
  token as \<open>offset\<close>. For two POST /search requests with the same URL query parameters
  and the same envelope the results carry the same links (or end with the same error)
  whatever the two bodies are, also when the output types differ and both responses
  carry links.
\<close>

theorem post_search_links_ignore_body:
  "(pgstac_search b search = Inr item_list \<and> pgstac_search b search' = Inr item_list
    \<and> query_params request = query_params request' \<longrightarrow>
      map_sum id response_links (post_search b request search output_type)
        = map_sum id response_links (post_search b request' search' output_type)
      \<and> links_of (post_search b request search output_type)
          = links_of (post_search b request' search' output_type)
      \<and> (post_search b request search otype = Inr resp
          \<and> response_links resp = Some ls
          \<and> post_search b request' search' otype' = Inr resp'
          \<and> response_links resp' = Some ls' \<longrightarrow> ls = ls'))
   \<and> (pgstac_search b search = Inr item_list
       \<and> post_search b request search output_type = Inr resp
       \<and> response_links resp = Some ls \<longrightarrow>
      paged b request (url_for b ''get_search'' []) item_list ls
      \<and> (\<forall>l \<in> set ls. (rel l = ''next'' \<or> rel l = ''prev'')
                         \<and> prefix (url_for b ''get_search'' [] @ ''?'') (href l)))"
proof -
  have same: "post_search b request search ot = post_search b request' search' ot"
    if "pgstac_search b search = Inr item_list" "pgstac_search b search' = Inr item_list"
      "query_params request = query_params request'" for ot
  proof -
    have "request = request'" using that(3) by (rule Request_eq)
    with that(1,2) show ?thesis by (simp add: post_search_envelope)
  qed
  have cross: "ls = ls'"
    if "pgstac_search b search = Inr item_list" "pgstac_search b search' = Inr item_list"
      "query_params request = query_params request'"
      "post_search b request search otype = Inr resp"
      "response_links resp = Some ls"
      "post_search b request' search' otype' = Inr resp'"
      "response_links resp' = Some ls'"
  proof -
    have "search_response b request (resolve_output_type otype) item_list = Inr resp"
      "search_response b request' (resolve_output_type otype') item_list = Inr resp'"
      using that by (simp_all add: post_search_envelope)
    from search_response_links_exact [OF this(1) that(5)]
      search_response_links_exact [OF this(2) that(7)]
    show ?thesis by (simp only: that(3))
  qed
  have own: "paged b request (url_for b ''get_search'' []) item_list ls
      \<and> (\<forall>l \<in> set ls. (rel l = ''next'' \<or> rel l = ''prev'')
                         \<and> prefix (url_for b ''get_search'' [] @ ''?'') (href l))"
    if "pgstac_search b search = Inr item_list"
      "post_search b request search output_type = Inr resp"
      "response_links resp = Some ls"
  proof -
    have sr: "search_response b request (resolve_output_type output_type) item_list
                = Inr resp"
      using that by (simp add: post_search_envelope)
    have "\<forall>l \<in> set ls. (rel l = ''next'' \<or> rel l = ''prev'')
                         \<and> prefix (url_for b ''get_search'' [] @ ''?'') (href l)"
      unfolding search_response_links_exact [OF sr that(3)]
      by (auto simp: page_link_def split: option.splits)
    with search_response_paged [OF sr that(3)] show ?thesis by blast
  qed
  show ?thesis
    apply (intro conjI impI)
    subgoal by (elim conjE) (simp add: same)
    subgoal by (elim conjE) (simp add: same)
    subgoal by (elim conjE) (rule cross; assumption)
    subgoal using own by blast
    subgoal using own by blast
    done
qed

theorem post_search_links_ignore_body_witness:
  "pgstac_search (sample_boundary (sample_item_list (Some ''T2'') (Some ''T0'')))
     [(''ids'', PList [PStr ''secret-item''])]
     = Inr (sample_item_list (Some ''T2'') (Some ''T0''))
   \<and> pgstac_search (sample_boundary (sample_item_list (Some ''T2'') (Some ''T0'')))
       [(''limit'', PInt 5)]
     = Inr (sample_item_list (Some ''T2'') (Some ''T0''))
   \<and> links_of (post_search (sample_boundary (sample_item_list (Some ''T2'') (Some ''T0'')))
                 \<lparr>query_params = [(''offset'', ''T1'')]\<rparr>
                 [(''ids'', PList [PStr ''secret-item''])] None)
       = links_of (post_search (sample_boundary (sample_item_list (Some ''T2'') (Some ''T0'')))
                     \<lparr>query_params = [(''offset'', ''T1'')]\<rparr> [(''limit'', PInt 5)] None)
   \<and> map href (links_of
         (post_search (sample_boundary (sample_item_list (Some ''T2'') (Some ''T0'')))
            \<lparr>query_params = [(''offset'', ''T1'')]\<rparr>
            [(''ids'', PList [PStr ''secret-item''])] None))
       = [''/get_search?offset=T2'', ''/get_search?offset=T0'']"
proof -
  let ?il = "sample_item_list (Some ''T2'') (Some ''T0'')"
  let ?b = "sample_boundary ?il"
  let ?r = "\<lparr>query_params = [(''offset'', ''T1'')]\<rparr>"
  have bnd: "pgstac_search ?b d = Inr ?il" "url_for ?b name ps = ''/'' @ name"
    "urlencode ?b = sample_urlencode" for d name ps
    by (simp_all add: sample_boundary_def)
  have il: "il_next ?il = Some ''T2''" "il_prev ?il = Some ''T0''"
    by (simp_all add: sample_item_list_def)
  have o: "resolve_output_type None \<notin> {csv, json, ndjson, geojsonseq}"
    by (simp add: resolve_output_type_def)
  obtain resp ls where r: "search_response ?b ?r (resolve_output_type None) ?il = Inr resp"
      "response_links resp = Some ls"
    using search_response_responds [OF o, of ?il ?r ?b] by auto
  have ls: "ls = [page_link ?b ''next'' ''Next page'' ''/get_search''
                    (offset_set (qp_dict [(''offset'', ''T1'')]) ''T2''),
                  page_link ?b ''prev'' ''Previous page'' ''/get_search''
                    (offset_readded (qp_dict [(''offset'', ''T1'')]) ''T0'')]"
    using search_response_links_exact [OF r] by (simp add: il bnd)
  have e: "links_of (post_search ?b ?r d None) = ls" for d
    using r by (simp add: post_search_envelope bnd links_of_def)
  show ?thesis
    using post_search_links_ignore_body [where b = ?b and item_list = ?il
        and search = "[(''ids'', PList [PStr ''secret-item''])]"
        and search' = "[(''limit'', PInt 5)]" and request = ?r and request' = ?r
        and output_type = None]
    by (simp add: bnd e ls page_link_def qp_dict_def dict_of_def offset_set_def
        offset_readded_def sample_urlencode_def)
qed

section \<open>The sort entry of GET /search\<close>

lemma get_search_sortby_terms:
  "get_search_sortby s
     = map spec_sort_term
         (filter (\<lambda>t. CHR 0x0A \<notin> set (butlast t)) (str_split CHR '','' (str_strip s)))"
  by (simp add: get_search_sortby_def concat_map_sort_term)

lemma get_search_sortby_no_line_feed:
  assumes "CHR 0x0A \<notin> set s"
  shows "get_search_sortby s = spec_sort_parse (str_strip s)"
proof -
  have "CHR 0x0A \<notin> set (butlast t)" if "t \<in> set (str_split CHR '','' (str_strip s))" for t
    using that assms set_str_split set_str_strip in_set_butlastD by (metis subsetD)
  then have "filter (\<lambda>t. CHR 0x0A \<notin> set (butlast t)) (str_split CHR '','' (str_strip s))
               = str_split CHR '','' (str_strip s)"
    by (simp add: filter_id_conv)
  then show ?thesis by (simp add: get_search_sortby_terms spec_sort_parse_def)
qed

lemma spec_sort_parse_not_Nil: "spec_sort_parse s \<noteq> []"
  by (simp add: spec_sort_parse_def str_split_not_Nil)

text \<open>
  Claim C5, amended. On GET /search an absent or empty sort string adds no sort entry to
  the request. Any other sort string is first trimmed as a whole and then split on
  commas. A term with a line feed before its last character does not match the pattern
  and is skipped. Every other term is read as the specification says: an optional leading
  \<open>+\<close> or \<open>-\<close> followed by the property name, trimmed; a leading \<open>-\<close> gives
  \<open>{field, direction: desc}\<close>, anything else \<open>{field, direction: asc}\<close>. The list of
  these entries is the \<open>sortby\<close> entry of the assembled request, and there is no such
  entry when every term was skipped. For a non-empty sort string without line feed the
  entry is the specification's parse of the trimmed string. \<open>"-date,price"\<close> gives
  \<open>[{date, desc}, {price, asc}]\<close> and \<open>" name"\<close> gives \<open>[{name, asc}]\<close>. The request is
  assembled whenever the datetime block, the parsing of the query and the serialisation of
  the filter succeed.
\<close>

theorem get_search_sortby_parse:
  "(get_search_request b collections_filter ids_filter bbox_filter datetime_filter properties
      cql_filter sortby query limit offset = Inr clean \<longrightarrow>
      map_of clean ''sortby''
        = (case sortby of
             None \<Rightarrow> None
           | Some s \<Rightarrow>
               if s = [] then None
               else (let terms =
                           map spec_sort_term
                             (filter (\<lambda>t. CHR 0x0A \<notin> set (butlast t))
                                (str_split CHR '','' (str_strip s)))
                     in if terms = [] then None else Some (PList terms)))
      \<and> (\<forall>s. sortby = Some s \<and> s \<noteq> [] \<and> CHR 0x0A \<notin> set s \<longrightarrow>
            map_of clean ''sortby'' = Some (PList (spec_sort_parse (str_strip s))))
      \<and> (sortby = Some ''-date,price'' \<longrightarrow>
            map_of clean ''sortby''
              = Some (PList [PDict [(''field'', PStr ''date''), (''direction'', PStr ''desc'')],
                             PDict [(''field'', PStr ''price''), (''direction'', PStr ''asc'')]]))
      \<and> (sortby = Some '' name'' \<longrightarrow>
            map_of clean ''sortby''
              = Some (PList [PDict [(''field'', PStr ''name''), (''direction'', PStr ''asc'')]])))
   \<and> (get_search_datetime b datetime_filter = Inr datetime
        \<and> query_value b query = Inr qv \<and> filter_args b cql_filter = Inr fa \<longrightarrow>
       (\<exists>clean. get_search_request b collections_filter ids_filter bbox_filter
                   datetime_filter properties cql_filter sortby query limit offset
                 = Inr clean))"
proof -
  have part1:
    "map_of clean ''sortby''
        = (case sortby of
             None \<Rightarrow> None
           | Some s \<Rightarrow>
               if s = [] then None
               else (let terms =
                           map spec_sort_term
                             (filter (\<lambda>t. CHR 0x0A \<notin> set (butlast t))
                                (str_split CHR '','' (str_strip s)))
                     in if terms = [] then None else Some (PList terms)))
      \<and> (\<forall>s. sortby = Some s \<and> s \<noteq> [] \<and> CHR 0x0A \<notin> set s \<longrightarrow>
            map_of clean ''sortby'' = Some (PList (spec_sort_parse (str_strip s))))
      \<and> (sortby = Some ''-date,price'' \<longrightarrow>
            map_of clean ''sortby''
              = Some (PList [PDict [(''field'', PStr ''date''), (''direction'', PStr ''desc'')],
                             PDict [(''field'', PStr ''price''), (''direction'', PStr ''asc'')]]))
      \<and> (sortby = Some '' name'' \<longrightarrow>
            map_of clean ''sortby''
              = Some (PList [PDict [(''field'', PStr ''name''), (''direction'', PStr ''asc'')]]))"
    if req: "get_search_request b collections_filter ids_filter bbox_filter datetime_filter
               properties cql_filter sortby query limit offset = Inr clean"
  proof -
    note e = get_search_request_entries(8) [OF req]
    have g: "map_of clean ''sortby''
        = (case sortby of
             None \<Rightarrow> None
           | Some s \<Rightarrow>
               if s = [] then None
               else (let terms =
                           map spec_sort_term
                             (filter (\<lambda>t. CHR 0x0A \<notin> set (butlast t))
                                (str_split CHR '','' (str_strip s)))
                     in if terms = [] then None else Some (PList terms)))"
      unfolding e by (cases sortby) (auto simp: Let_def get_search_sortby_terms)
    have n: "map_of clean ''sortby'' = Some (PList (spec_sort_parse (str_strip s)))"
      if "sortby = Some s" "s \<noteq> []" "CHR 0x0A \<notin> set s" for s
      using e that get_search_sortby_no_line_feed [OF that(3)] spec_sort_parse_not_Nil
      by simp
    have x1: "spec_sort_parse (str_strip ''-date,price'')
        = [PDict [(''field'', PStr ''date''), (''direction'', PStr ''desc'')],
           PDict [(''field'', PStr ''price''), (''direction'', PStr ''asc'')]]"
      by (simp add: spec_sort_parse_def spec_sort_term_def sort_entry_def str_strip_def
          str_lstrip_def str_rstrip_def py_isspace_def)
    have x2: "spec_sort_parse (str_strip '' name'')
        = [PDict [(''field'', PStr ''name''), (''direction'', PStr ''asc'')]]"
      by (simp add: spec_sort_parse_def spec_sort_term_def sort_entry_def str_strip_def
          str_lstrip_def str_rstrip_def py_isspace_def)
    have e1: "map_of clean ''sortby''
              = Some (PList [PDict [(''field'', PStr ''date''), (''direction'', PStr ''desc'')],
                             PDict [(''field'', PStr ''price''), (''direction'', PStr ''asc'')]])"
      if "sortby = Some ''-date,price''"
      using n [OF that] by (simp add: x1)
    have e2: "map_of clean ''sortby''
              = Some (PList [PDict [(''field'', PStr ''name''), (''direction'', PStr ''asc'')]])"
      if "sortby = Some '' name''"
      using n [OF that] by (simp add: x2)
    show ?thesis using g n e1 e2 by blast
  qed
  show ?thesis using part1 get_search_request_exists by blast
qed

theorem get_search_sortby_parse_witness:
  "get_search_request (sample_boundary (sample_item_list None None)) None None None None None
     None (Some ''-date, price'') None 10 None
     = Inr [(''limit'', PInt 10),
            (''sortby'', PList [sort_entry ''date'' ''desc'', sort_entry ''price'' ''asc''])]
   \<and> CHR 0x0A \<notin> set ''-date, price''
   \<and> spec_sort_parse (str_strip ''-date, price'')
       = [sort_entry ''date'' ''desc'', sort_entry ''price'' ''asc'']
   \<and> map_of [(''limit'', PInt 10),
              (''sortby'', PList [sort_entry ''date'' ''desc'', sort_entry ''price'' ''asc''])]
         ''sortby''
       = Some (PList (spec_sort_parse (str_strip ''-date, price'')))
   \<and> get_search_request (sample_boundary (sample_item_list None None)) None None None None None
         None (Some ''-date,price'') None 10 None
       = Inr [(''limit'', PInt 10),
              (''sortby'',
               PList [PDict [(''field'', PStr ''date''), (''direction'', PStr ''desc'')],
                      PDict [(''field'', PStr ''price''), (''direction'', PStr ''asc'')]])]"
proof -
  let ?b = "sample_boundary (sample_item_list None None)"
  have sp: "spec_sort_parse (str_strip ''-date, price'')
              = [sort_entry ''date'' ''desc'', sort_entry ''price'' ''asc'']"
    by (simp add: spec_sort_parse_def spec_sort_term_def str_strip_def str_lstrip_def
        str_rstrip_def py_isspace_def)
  have gs: "get_search_sortby ''-date, price''
              = [sort_entry ''date'' ''desc'', sort_entry ''price'' ''asc'']"
    "get_search_sortby ''-date,price''
              = [PDict [(''field'', PStr ''date''), (''direction'', PStr ''desc'')],
                 PDict [(''field'', PStr ''price''), (''direction'', PStr ''asc'')]]"
    by (simp_all add: get_search_sortby_def sort_term_def re_match_sortby_def sort_entry_def
        str_strip_def str_lstrip_def str_rstrip_def py_isspace_def)
  have r: "get_search_request ?b None None None None None None (Some s) None 10 None
             = Inr ([(''limit'', PInt 10)]
                    @ (if s = [] \<or> get_search_sortby s = [] then []
                       else [(''sortby'', PList (get_search_sortby s))]))" for s
    by (simp add: get_search_request_def get_search_datetime_def get_search_base_args_flat
        query_value_def filter_args_def datetime_args_def sortby_args_def fields_args_def
        opt_list_def opt_str_def clean_args_def)
  have ft: "filter (\<lambda>t. CHR 0x0A \<notin> set (butlast t))
              (str_split CHR '','' (str_strip ''-date, price'')) = [''-date'', '' price'']"
    "filter (\<lambda>t. CHR 0x0A \<notin> set (butlast t))
              (str_split CHR '','' (str_strip ''-date,price'')) = [''-date'', ''price'']"
    by (simp_all add: str_strip_def str_lstrip_def str_rstrip_def py_isspace_def)
  show ?thesis
    using get_search_sortby_parse [of ?b None None None None None None "Some ''-date, price''"
        None 10 None
        "[(''limit'', PInt 10),
          (''sortby'', PList [sort_entry ''date'' ''desc'', sort_entry ''price'' ''asc''])]"
        None PNone "[]"]
      get_search_sortby_parse [of ?b None None None None None None "Some ''-date,price''"
        None 10 None
        "[(''limit'', PInt 10),
          (''sortby'',
           PList [PDict [(''field'', PStr ''date''), (''direction'', PStr ''desc'')],
                  PDict [(''field'', PStr ''price''), (''direction'', PStr ''asc'')]])]"
        None PNone "[]"]
      sp
    by (simp add: r gs ft)
qed

text \<open>
  The claim as written leaves out the guard on the sort string, the trimming of the
  whole string and the skipped terms. For an empty sort string the specification's words
  give one entry with an empty field, and the handler sends no sort entry. With a space
  before the sign of the first term the handler sorts descending by \<open>date\<close> where the
  specification's words give ascending by \<open>-date\<close>. A term with an inner line feed
  yields no entry at all.
\<close>

theorem get_search_sortby_counterexample:
  "get_search_request (sample_boundary (sample_item_list None None)) None None None None None
     None (Some []) None 10 None
     = Inr [(''limit'', PInt 10)]
   \<and> spec_sort_parse [] = [sort_entry [] ''asc'']
   \<and> get_search_request (sample_boundary (sample_item_list None None)) None None None None None
         None (Some '' -date'') None 10 None
       = Inr [(''limit'', PInt 10), (''sortby'', PList [sort_entry ''date'' ''desc''])]
   \<and> spec_sort_parse '' -date'' = [sort_entry ''-date'' ''asc'']
   \<and> get_search_request (sample_boundary (sample_item_list None None)) None None None None None
         None (Some [CHR ''a'', CHR 0x0A, CHR ''b'']) None 10 None
       = Inr [(''limit'', PInt 10)]
   \<and> spec_sort_parse [CHR ''a'', CHR 0x0A, CHR ''b'']
       = [sort_entry [CHR ''a'', CHR 0x0A, CHR ''b''] ''asc'']"
proof -
  let ?b = "sample_boundary (sample_item_list None None)"
  have r: "get_search_request ?b None None None None None None (Some s) None 10 None
             = Inr ([(''limit'', PInt 10)]
                    @ (if s = [] \<or> get_search_sortby s = [] then []
                       else [(''sortby'', PList (get_search_sortby s))]))" for s
    by (simp add: get_search_request_def get_search_datetime_def get_search_base_args_flat
        query_value_def filter_args_def datetime_args_def sortby_args_def fields_args_def
        opt_list_def opt_str_def clean_args_def)
  have gs: "get_search_sortby '' -date'' = [sort_entry ''date'' ''desc'']"
    "get_search_sortby [CHR ''a'', CHR 0x0A, CHR ''b''] = []"
    by (simp_all add: get_search_sortby_def sort_term_def re_match_sortby_def sort_entry_def
        str_strip_def str_lstrip_def str_rstrip_def py_isspace_def)
  have sp: "spec_sort_parse [] = [sort_entry [] ''asc'']"
    "spec_sort_parse '' -date'' = [sort_entry ''-date'' ''asc'']"
    "spec_sort_parse [CHR ''a'', CHR 0x0A, CHR ''b'']
       = [sort_entry [CHR ''a'', CHR 0x0A, CHR ''b''] ''asc'']"
    by (simp_all add: spec_sort_parse_def spec_sort_term_def str_strip_def str_lstrip_def
        str_rstrip_def py_isspace_def)
  show ?thesis by (simp add: r gs sp)
qed

end
